theory Spec2Isabelle
  imports Main "HOL-Library.Word"
begin

section \<open>The contract ConfidentialBonusPool\<close>

text \<open>
  A shallow embedding of the Solidity contract \<open>ConfidentialBonusPool\<close>. The storage of
  the contract is a record; every external function is a function from the storage before
  the call to either an error (the \<open>require\<close> that failed) or the storage after it. A
  transaction that fails is rolled back as a whole, so an error carries no storage: the
  storage after a failed call is the storage before it (\<open>settle\<close>).
\<close>

subsection \<open>Values\<close>

type_synonym address = "160 word"
type_synonym uint64 = "64 word"

text \<open>\<open>enum Role { None, Intern, Junior, Mid, Senior, Lead }\<close>; the first constructor
  is suffixed, \<open>None\<close> being the constructor of \<open>option\<close>.\<close>

datatype Role = None_Role | Intern | Junior | Mid | Senior | Lead

text \<open>
  Modelled from the spec: the library \<open>FHE\<close> (imported from \<open>@fhevm/solidity\<close>) is not
  among the sources. An \<open>euint64\<close> is a handle of an encrypted unsigned 64-bit value. The
  model keeps, for every handle, the value it encrypts; the handle that was never assigned
  (the zero word of a fresh storage slot) is \<open>Uninitialized\<close>.
\<close>

datatype euint64 = Uninitialized | Encrypted uint64

datatype error =
    OnlyManager
  | Reentrancy
  | MustSendETH
  | InvalidRequestID
  | EncryptedPoolMismatch
  | InvalidRole
  | AlreadyWithdrawn
  | PoolNotFunded
  | AlreadyCommittedPerformance
  | NoPerformanceCommitted
  | InvalidEmployee
  | BonusZero
  | InsufficientPoolFunds
  | FailedToSendETH
  | NoRemainingFunds
  | PoolMismatch
  | NothingToWithdraw
  | Panic
  | InvalidInputProof
  | NoHandleFoundForRequestID
  | InvalidKMSSignatures

text \<open>What a call leaves behind outside the storage: the events it emits and the ether it
  sends.\<close>

datatype effect =
    PoolFunded address nat nat
  | PerformanceCommitted address Role
  | BonusWithdrawn address uint64
  | RemainingWithdrawn address uint64
  | BonusCalculated nat address
  | Transfer address nat

record Employee =
  performance :: euint64
  role :: Role
  hasWithdrawn :: bool
  hasCommitted :: bool
  decryptedBonus :: uint64

text \<open>
  The storage. \<open>uint256\<close> values are natural numbers, with the overflow check of
  Solidity 0.8 written out where the contract adds to them. A \<open>mapping\<close> is a total
  function whose default is the zero value. \<open>counterRequest\<close> and \<open>requestedHandles\<close> are
  the part of the storage that the library keeps for decryption requests; \<open>trace\<close> lists
  the effects of the calls so far, oldest first.
\<close>

record ConfidentialBonusPool =
  manager :: address
  actualPool :: nat
  encryptedPool :: euint64
  rolePercentage :: "Role \<Rightarrow> uint64"
  employees :: "address \<Rightarrow> Employee"
  employeeList :: "address list"
  requestToEmployee :: "nat \<Rightarrow> address"
  decryptionRequestIdPool :: nat
  decryptionRequestIdBonus :: nat
  status :: nat
  counterRequest :: nat
  requestedHandles :: "nat \<Rightarrow> euint64 option"
  trace :: "effect list"

type_synonym 'a result = "error + 'a"

subsection \<open>The encryption library\<close>

text \<open>
  Modelled from the spec: the functions of the library \<open>FHE\<close> that the contract calls; the
  library is not among the sources. The encryption engine of the spec accepts a client's
  ciphertext only with a valid proof (\<open>fromExternal\<close>; the flag \<open>inputProof\<close> tells whether
  the proof verifies). Its operations on handles are pure and never fail (\<open>FHE_add\<close>,
  \<open>FHE_sub\<close>, \<open>FHE_mul\<close>, \<open>FHE_div\<close>): operands and results are \<open>euint64\<close> values, so a
  result is taken modulo \<open>2^64\<close>, and a handle that was never assigned counts as an
  encryption of zero. \<open>asEuint64\<close> encrypts a cleartext and yields an assigned handle;
  \<open>isInitialized\<close> tells whether a handle was assigned. \<open>requestDecryption\<close> registers the
  handle under a fresh identifier, the value of the library's counter, and increments the
  counter. \<open>checkSignatures\<close> authenticates the payload of a callback: it fails when no
  handle is registered under the identifier, and it accepts the cleartext when the proof
  carries the signatures of the oracle (the flag \<open>decryptionProof\<close>) and the cleartext is
  the value of the registered handle. The access control of the library (\<open>allowThis\<close>)
  changes nothing that the model keeps.
\<close>

definition cleartext :: "euint64 \<Rightarrow> uint64" where
  "cleartext h = (case h of Uninitialized \<Rightarrow> 0 | Encrypted v \<Rightarrow> v)"

definition asEuint64 :: "uint64 \<Rightarrow> euint64" where
  "asEuint64 v = Encrypted v"

definition isInitialized :: "euint64 \<Rightarrow> bool" where
  "isInitialized h = (h \<noteq> Uninitialized)"

definition fromExternal :: "uint64 \<Rightarrow> bool \<Rightarrow> euint64 result" where
  "fromExternal input inputProof =
     (if inputProof then Inr (Encrypted input) else Inl InvalidInputProof)"

definition FHE_add :: "euint64 \<Rightarrow> euint64 \<Rightarrow> euint64" where
  "FHE_add a b = Encrypted (cleartext a + cleartext b)"

definition FHE_sub :: "euint64 \<Rightarrow> euint64 \<Rightarrow> euint64" where
  "FHE_sub a b = Encrypted (cleartext a - cleartext b)"

definition FHE_mul :: "euint64 \<Rightarrow> euint64 \<Rightarrow> euint64" where
  "FHE_mul a b = Encrypted (cleartext a * cleartext b)"

definition FHE_div :: "euint64 \<Rightarrow> uint64 \<Rightarrow> euint64" where
  "FHE_div a b = Encrypted (cleartext a div b)"

definition requestDecryption ::
  "ConfidentialBonusPool \<Rightarrow> euint64 \<Rightarrow> nat \<times> ConfidentialBonusPool" where
  "requestDecryption s ct =
     (counterRequest s,
      s\<lparr>requestedHandles := (requestedHandles s)(counterRequest s \<mapsto> ct),
        counterRequest := counterRequest s + 1\<rparr>)"

definition checkSignatures ::
  "ConfidentialBonusPool \<Rightarrow> nat \<Rightarrow> uint64 \<Rightarrow> bool \<Rightarrow> unit result" where
  "checkSignatures s requestId cleartexts decryptionProof =
     (case requestedHandles s requestId of
        None \<Rightarrow> Inl NoHandleFoundForRequestID
      | Some h \<Rightarrow>
          if decryptionProof \<and> cleartexts = cleartext h then Inr ()
          else Inl InvalidKMSSignatures)"

subsection \<open>Construction\<close>

text \<open>
  The constructor (lines 59 to 71). \<open>firstRequestId\<close> is the value of the library's
  request counter in the fresh storage, which the sources do not fix.
\<close>

definition constructor :: "address \<Rightarrow> nat \<Rightarrow> ConfidentialBonusPool" where
  "constructor msg_sender firstRequestId =
     \<lparr>manager = msg_sender,
      actualPool = 0,
      encryptedPool = asEuint64 0,
      rolePercentage =
        (\<lambda>r. case r of None_Role \<Rightarrow> 0 | Intern \<Rightarrow> 200 | Junior \<Rightarrow> 500
                     | Mid \<Rightarrow> 800 | Senior \<Rightarrow> 1200 | Lead \<Rightarrow> 2000),
      employees =
        (\<lambda>_. \<lparr>performance = Uninitialized, role = None_Role, hasWithdrawn = False,
               hasCommitted = False, decryptedBonus = 0\<rparr>),
      employeeList = [],
      requestToEmployee = (\<lambda>_. 0),
      decryptionRequestIdPool = 0,
      decryptionRequestIdBonus = 0,
      status = 0,
      counterRequest = firstRequestId,
      requestedHandles = (\<lambda>_. None),
      trace = []\<rparr>"

subsection \<open>Funding\<close>

text \<open>\<open>fundPool\<close> (lines 79 to 96), with the modifier \<open>onlyManager\<close> first.\<close>

definition fundPool ::
  "ConfidentialBonusPool \<Rightarrow> address \<Rightarrow> nat \<Rightarrow> uint64 \<Rightarrow> bool \<Rightarrow> ConfidentialBonusPool result"
  where
  "fundPool s msg_sender msg_value encryptedAmount inputProof =
     (if msg_sender \<noteq> manager s then Inl OnlyManager
      else if \<not> msg_value > 0 then Inl MustSendETH
      else if actualPool s + msg_value \<ge> 2 ^ 256 then Inl Panic
      else
        case fromExternal encryptedAmount inputProof of
          Inl e \<Rightarrow> Inl e
        | Inr amount \<Rightarrow>
            let s1 = s\<lparr>actualPool := actualPool s + msg_value,
                       encryptedPool := FHE_add (encryptedPool s) amount\<rparr>;
                (requestId, s2) = requestDecryption s1 amount
            in Inr (s2\<lparr>decryptionRequestIdPool := requestId,
                       trace := trace s2 @ [PoolFunded (manager s2) msg_value requestId]\<rparr>))"

text \<open>\<open>callbackVerifyPool\<close> (lines 98 to 108).\<close>

definition callbackVerifyPool ::
  "ConfidentialBonusPool \<Rightarrow> nat \<Rightarrow> uint64 \<Rightarrow> bool \<Rightarrow> ConfidentialBonusPool result" where
  "callbackVerifyPool s requestId cleartexts decryptionProof =
     (case checkSignatures s requestId cleartexts decryptionProof of
        Inl e \<Rightarrow> Inl e
      | Inr _ \<Rightarrow>
          if requestId \<noteq> decryptionRequestIdPool s then Inl InvalidRequestID
          else
            let decrypted = cleartexts in
            if unat decrypted \<noteq> actualPool s then Inl EncryptedPoolMismatch
            else Inr (s\<lparr>decryptionRequestIdPool := 0\<rparr>))"

subsection \<open>Commitment\<close>

text \<open>\<open>commitPerformance\<close> (lines 113 to 137); the four checks in the order of the
  source.\<close>

definition commitPerformance ::
  "ConfidentialBonusPool \<Rightarrow> address \<Rightarrow> uint64 \<Rightarrow> bool \<Rightarrow> Role \<Rightarrow> ConfidentialBonusPool result"
  where
  "commitPerformance s msg_sender encryptedScore inputProof r =
     (if r = None_Role then Inl InvalidRole
      else if hasWithdrawn (employees s msg_sender) then Inl AlreadyWithdrawn
      else if \<not> isInitialized (encryptedPool s) then Inl PoolNotFunded
      else if hasCommitted (employees s msg_sender) then Inl AlreadyCommittedPerformance
      else
        case fromExternal encryptedScore inputProof of
          Inl e \<Rightarrow> Inl e
        | Inr score \<Rightarrow>
            Inr (s\<lparr>employees := (employees s)(msg_sender :=
                       \<lparr>performance = score, role = r, hasWithdrawn = False,
                        hasCommitted = True, decryptedBonus = 0\<rparr>),
                   employeeList := employeeList s @ [msg_sender],
                   trace := trace s @ [PerformanceCommitted msg_sender r]\<rparr>))"

subsection \<open>Bonus withdrawal\<close>

text \<open>The computation of the bonus on encrypted operands (lines 149 to 151).\<close>

definition encryptedBonus :: "euint64 \<Rightarrow> uint64 \<Rightarrow> euint64 \<Rightarrow> euint64" where
  "encryptedBonus perf pct pool =
     (let rolePct = asEuint64 pct;
          weightedPerf = FHE_div (FHE_mul perf rolePct) 100
      in FHE_div (FHE_mul weightedPerf pool) 10000)"

text \<open>
  \<open>withdrawBonus\<close> (lines 142 to 160) calls the library to open the decryption request
  (line 155), so it is split at that call. \<open>withdrawBonus_enter\<close> is the function up to
  line 154: the two checks, the assignment of \<open>hasWithdrawn\<close> (line 147) and the
  computation of the bonus; it yields the storage in which the request is opened and the
  handle of the bonus. \<open>withdrawBonus\<close> opens the request in that storage and records
  it (lines 155 to 159).
\<close>

definition withdrawBonus_enter ::
  "ConfidentialBonusPool \<Rightarrow> address \<Rightarrow> (ConfidentialBonusPool \<times> euint64) result" where
  "withdrawBonus_enter s msg_sender =
     (let emp = employees s msg_sender in
      if \<not> hasCommitted emp then Inl NoPerformanceCommitted
      else if hasWithdrawn emp then Inl AlreadyWithdrawn
      else
        let s1 = s\<lparr>employees := (employees s)(msg_sender := emp\<lparr>hasWithdrawn := True\<rparr>)\<rparr>;
            bonus = encryptedBonus (performance emp) (rolePercentage s1 (role emp))
                      (encryptedPool s1)
        in Inr (s1, bonus))"

definition withdrawBonus ::
  "ConfidentialBonusPool \<Rightarrow> address \<Rightarrow> ConfidentialBonusPool result" where
  "withdrawBonus s msg_sender =
     (case withdrawBonus_enter s msg_sender of
        Inl e \<Rightarrow> Inl e
      | Inr (s1, bonus) \<Rightarrow>
          let (requestId, s2) = requestDecryption s1 bonus
          in Inr (s2\<lparr>requestToEmployee := (requestToEmployee s2)(requestId := msg_sender),
                     decryptionRequestIdBonus := requestId,
                     trace := trace s2 @ [BonusCalculated requestId msg_sender]\<rparr>))"

text \<open>
  \<open>callbackPayBonus\<close> (lines 162 to 191) hands control to the employee's account when it
  sends the ether (line 183), so it is split at that call. \<open>callbackPayBonus_enter\<close> is
  the function from the modifier \<open>nonReentrant\<close> to line 180: it yields the storage in
  which the ether is sent, the employee and the bonus. \<open>callbackPayBonus_leave\<close> is the
  rest (lines 184 to 190 and the end of the modifier), from the storage that the
  employee's account left and the success \<open>sent\<close> of the call.
\<close>

definition callbackPayBonus_enter ::
  "ConfidentialBonusPool \<Rightarrow> nat \<Rightarrow> uint64 \<Rightarrow> bool \<Rightarrow>
     (ConfidentialBonusPool \<times> address \<times> uint64) result" where
  "callbackPayBonus_enter s requestId cleartexts decryptionProof =
     (if status s \<noteq> 0 then Inl Reentrancy
      else
        let s0 = s\<lparr>status := 1\<rparr> in
        case checkSignatures s0 requestId cleartexts decryptionProof of
          Inl e \<Rightarrow> Inl e
        | Inr _ \<Rightarrow>
            let employee = requestToEmployee s0 requestId in
            if employee = 0 then Inl InvalidEmployee
            else
              let bonus = cleartexts in
              if \<not> bonus > 0 then Inl BonusZero
              else if \<not> unat bonus \<le> actualPool s0 then Inl InsufficientPoolFunds
              else
                Inr (s0\<lparr>encryptedPool := FHE_sub (encryptedPool s0) (asEuint64 bonus),
                        actualPool := actualPool s0 - unat bonus\<rparr>,
                     employee, bonus))"

definition callbackPayBonus_leave ::
  "ConfidentialBonusPool \<Rightarrow> nat \<Rightarrow> address \<Rightarrow> uint64 \<Rightarrow> bool \<Rightarrow> ConfidentialBonusPool result"
  where
  "callbackPayBonus_leave s requestId employee bonus sent =
     (if \<not> sent then Inl FailedToSendETH
      else
        Inr (s\<lparr>employees := (employees s)(employee :=
                   (employees s employee)\<lparr>decryptedBonus := bonus\<rparr>),
               requestToEmployee := (requestToEmployee s)(requestId := 0),
               trace := trace s @ [BonusWithdrawn employee bonus],
               status := 0\<rparr>))"

subsection \<open>Withdrawal of the remainder\<close>

text \<open>\<open>withdrawRemaining\<close> (lines 196 to 203).\<close>

definition withdrawRemaining ::
  "ConfidentialBonusPool \<Rightarrow> address \<Rightarrow> ConfidentialBonusPool result" where
  "withdrawRemaining s msg_sender =
     (if msg_sender \<noteq> manager s then Inl OnlyManager
      else if \<not> actualPool s > 0 then Inl NoRemainingFunds
      else
        let (requestId, s1) = requestDecryption s (encryptedPool s)
        in Inr (s1\<lparr>decryptionRequestIdPool := requestId\<rparr>))"

text \<open>
  \<open>callbackWithdrawRemaining\<close> (lines 205 to 227), split at the call that sends the
  ether to the manager (line 223) in the same way: \<open>callbackWithdrawRemaining_enter\<close>
  yields the storage in which the ether is sent and the amount.
\<close>

definition callbackWithdrawRemaining_enter ::
  "ConfidentialBonusPool \<Rightarrow> nat \<Rightarrow> uint64 \<Rightarrow> bool \<Rightarrow> (ConfidentialBonusPool \<times> nat) result"
  where
  "callbackWithdrawRemaining_enter s requestId cleartexts decryptionProof =
     (if status s \<noteq> 0 then Inl Reentrancy
      else
        let s0 = s\<lparr>status := 1\<rparr> in
        case checkSignatures s0 requestId cleartexts decryptionProof of
          Inl e \<Rightarrow> Inl e
        | Inr _ \<Rightarrow>
            if requestId \<noteq> decryptionRequestIdPool s0 then Inl InvalidRequestID
            else
              let remaining = cleartexts in
              if \<not> unat remaining \<le> actualPool s0 then Inl PoolMismatch
              else if \<not> remaining > 0 then Inl NothingToWithdraw
              else
                let amount = actualPool s0 in
                Inr (s0\<lparr>actualPool := 0,
                        encryptedPool := asEuint64 0,
                        decryptionRequestIdPool := 0\<rparr>,
                     amount))"

definition callbackWithdrawRemaining_leave ::
  "ConfidentialBonusPool \<Rightarrow> nat \<Rightarrow> bool \<Rightarrow> ConfidentialBonusPool result" where
  "callbackWithdrawRemaining_leave s amount sent =
     (if \<not> sent then Inl FailedToSendETH
      else
        Inr (s\<lparr>trace := trace s @ [RemainingWithdrawn (manager s) (word_of_nat amount)],
               status := 0\<rparr>))"

subsection \<open>Calls and transactions\<close>

text \<open>
  A failed call is rolled back: the storage stays what it was.
\<close>

definition settle :: "ConfidentialBonusPool \<Rightarrow> ConfidentialBonusPool result \<Rightarrow> ConfidentialBonusPool"
  where
  "settle s r = (case r of Inl _ \<Rightarrow> s | Inr s' \<Rightarrow> s')"

definition sendETH :: "ConfidentialBonusPool \<Rightarrow> address \<Rightarrow> nat \<Rightarrow> ConfidentialBonusPool" where
  "sendETH s recipient amount = s\<lparr>trace := trace s @ [Transfer recipient amount]\<rparr>"

text \<open>
  The external calls of the contract. The two callbacks that send ether carry what the
  receiving account does with the control it is given: the calls it makes back into the
  contract, in order (each of them committed or rolled back on its own), and whether
  the receiving account reports success.
\<close>

datatype call =
    FundPool address nat uint64 bool
  | CallbackVerifyPool nat uint64 bool
  | CommitPerformance address uint64 bool Role
  | WithdrawBonus address
  | CallbackPayBonus nat uint64 bool "call list" bool
  | WithdrawRemaining address
  | CallbackWithdrawRemaining nat uint64 bool "call list" bool

fun exec :: "ConfidentialBonusPool \<Rightarrow> call \<Rightarrow> ConfidentialBonusPool result" where
  "exec s (FundPool msg_sender msg_value encryptedAmount inputProof) =
     fundPool s msg_sender msg_value encryptedAmount inputProof"
| "exec s (CallbackVerifyPool requestId cleartexts decryptionProof) =
     callbackVerifyPool s requestId cleartexts decryptionProof"
| "exec s (CommitPerformance msg_sender encryptedScore inputProof r) =
     commitPerformance s msg_sender encryptedScore inputProof r"
| "exec s (WithdrawBonus msg_sender) = withdrawBonus s msg_sender"
| "exec s (CallbackPayBonus requestId cleartexts decryptionProof reentrant sent) =
     (case callbackPayBonus_enter s requestId cleartexts decryptionProof of
        Inl e \<Rightarrow> Inl e
      | Inr (s1, employee, bonus) \<Rightarrow>
          callbackPayBonus_leave
            (fold (\<lambda>c t. settle t (exec t c)) reentrant (sendETH s1 employee (unat bonus)))
            requestId employee bonus sent)"
| "exec s (WithdrawRemaining msg_sender) = withdrawRemaining s msg_sender"
| "exec s (CallbackWithdrawRemaining requestId cleartexts decryptionProof reentrant sent) =
     (case callbackWithdrawRemaining_enter s requestId cleartexts decryptionProof of
        Inl e \<Rightarrow> Inl e
      | Inr (s1, amount) \<Rightarrow>
          callbackWithdrawRemaining_leave
            (fold (\<lambda>c t. settle t (exec t c)) reentrant (sendETH s1 (manager s1) amount))
            amount sent)"

text \<open>A sequence of transactions, each committed or rolled back.\<close>

definition run :: "ConfidentialBonusPool \<Rightarrow> call list \<Rightarrow> ConfidentialBonusPool" where
  "run s cs = fold (\<lambda>c t. settle t (exec t c)) cs s"

subsection \<open>Invariants of the storage\<close>

text \<open>
  \<open>sound\<close> holds of the storage after construction and after every call: request
  identifiers at or above the library's counter are unused, an employee with a pending
  bonus request has withdrawn, an employee who has withdrawn has committed, a nonzero
  \<open>decryptedBonus\<close> belongs to an employee who has withdrawn, and the handle of the pool
  is assigned. \<open>keeps s s'\<close> relates a storage to a later one: the counter does not
  decrease, the handles registered under the identifiers issued so far stay, a closed
  bonus request stays closed, the two flags of an employee are never cleared, and the
  manager and the percentages of the roles are fixed.
\<close>

definition sound :: "ConfidentialBonusPool \<Rightarrow> bool" where
  "sound s =
     ((\<forall>r. counterRequest s \<le> r \<longrightarrow> requestedHandles s r = None \<and> requestToEmployee s r = 0) \<and>
      (\<forall>r. requestToEmployee s r \<noteq> 0 \<longrightarrow> hasWithdrawn (employees s (requestToEmployee s r))) \<and>
      (\<forall>a. hasWithdrawn (employees s a) \<longrightarrow> hasCommitted (employees s a)) \<and>
      (\<forall>a. decryptedBonus (employees s a) \<noteq> 0 \<longrightarrow> hasWithdrawn (employees s a)) \<and>
      encryptedPool s \<noteq> Uninitialized)"

definition keeps :: "ConfidentialBonusPool \<Rightarrow> ConfidentialBonusPool \<Rightarrow> bool" where
  "keeps s s' =
     (manager s' = manager s \<and> rolePercentage s' = rolePercentage s \<and>
      counterRequest s \<le> counterRequest s' \<and>
      (\<forall>r. r < counterRequest s \<longrightarrow>
          requestedHandles s' r = requestedHandles s r \<and>
          (requestToEmployee s r = 0 \<longrightarrow> requestToEmployee s' r = 0)) \<and>
      (\<forall>a. (hasWithdrawn (employees s a) \<longrightarrow> hasWithdrawn (employees s' a)) \<and>
           (hasCommitted (employees s a) \<longrightarrow> hasCommitted (employees s' a))))"

text \<open>The position of a role in the enumeration (\<open>uint8(role)\<close>).\<close>

definition rank :: "Role \<Rightarrow> nat" where
  "rank r = (case r of None_Role \<Rightarrow> 0 | Intern \<Rightarrow> 1 | Junior \<Rightarrow> 2 | Mid \<Rightarrow> 3
                     | Senior \<Rightarrow> 4 | Lead \<Rightarrow> 5)"

section \<open>Properties\<close>

lemma settle_simps:
  "settle s (Inl e) = s" "settle s (Inr s') = s'"
  by (simp_all add: settle_def)

subsection \<open>What a successful call does\<close>

lemma cleartext_Encrypted [simp]: "cleartext (Encrypted v) = v"
  by (simp add: cleartext_def)

lemma fundPool_Inr:
  "fundPool s a v e p = Inr s' \<Longrightarrow>
     a = manager s \<and> 0 < v \<and> p \<and>
     s' = s\<lparr>actualPool := actualPool s + v,
            encryptedPool := Encrypted (cleartext (encryptedPool s) + e),
            requestedHandles := (requestedHandles s)(counterRequest s \<mapsto> Encrypted e),
            counterRequest := counterRequest s + 1,
            decryptionRequestIdPool := counterRequest s,
            trace := trace s @ [PoolFunded (manager s) v (counterRequest s)]\<rparr>"
  by (auto simp add: fundPool_def requestDecryption_def fromExternal_def FHE_add_def Let_def
      split: if_splits)

lemma callbackVerifyPool_Inr:
  "callbackVerifyPool s r v p = Inr s' \<Longrightarrow>
     checkSignatures s r v p = Inr () \<and> r = decryptionRequestIdPool s \<and> unat v = actualPool s \<and>
     s' = s\<lparr>decryptionRequestIdPool := 0\<rparr>"
  by (auto simp add: callbackVerifyPool_def Let_def split: sum.splits if_splits)

lemma commitPerformance_Inr:
  "commitPerformance s a e p r = Inr s' \<Longrightarrow>
     r \<noteq> None_Role \<and> \<not> hasWithdrawn (employees s a) \<and> \<not> hasCommitted (employees s a) \<and> p \<and>
     s' = s\<lparr>employees := (employees s)(a :=
               \<lparr>performance = Encrypted e, role = r, hasWithdrawn = False,
                hasCommitted = True, decryptedBonus = 0\<rparr>),
            employeeList := employeeList s @ [a],
            trace := trace s @ [PerformanceCommitted a r]\<rparr>"
  by (auto simp add: commitPerformance_def fromExternal_def split: if_splits)

lemma withdrawBonus_Inr:
  "withdrawBonus s a = Inr s' \<Longrightarrow>
     hasCommitted (employees s a) \<and> \<not> hasWithdrawn (employees s a) \<and>
     s' = s\<lparr>employees := (employees s)(a := (employees s a)\<lparr>hasWithdrawn := True\<rparr>),
            requestedHandles := (requestedHandles s)(counterRequest s \<mapsto>
               encryptedBonus (performance (employees s a))
                 (rolePercentage s (role (employees s a))) (encryptedPool s)),
            counterRequest := counterRequest s + 1,
            requestToEmployee := (requestToEmployee s)(counterRequest s := a),
            decryptionRequestIdBonus := counterRequest s,
            trace := trace s @ [BonusCalculated (counterRequest s) a]\<rparr>"
  by (auto simp add: withdrawBonus_def withdrawBonus_enter_def requestDecryption_def Let_def
      split: if_splits)

lemma withdrawBonus_enter_Inr:
  "withdrawBonus_enter s a = Inr (s1, bonus) \<Longrightarrow>
     hasCommitted (employees s a) \<and> \<not> hasWithdrawn (employees s a) \<and>
     s1 = s\<lparr>employees := (employees s)(a := (employees s a)\<lparr>hasWithdrawn := True\<rparr>)\<rparr> \<and>
     bonus = encryptedBonus (performance (employees s a))
               (rolePercentage s (role (employees s a))) (encryptedPool s)"
  by (auto simp add: withdrawBonus_enter_def Let_def split: if_splits)

lemma withdrawRemaining_Inr:
  "withdrawRemaining s a = Inr s' \<Longrightarrow>
     a = manager s \<and> 0 < actualPool s \<and>
     s' = s\<lparr>requestedHandles := (requestedHandles s)(counterRequest s \<mapsto> encryptedPool s),
            counterRequest := counterRequest s + 1,
            decryptionRequestIdPool := counterRequest s\<rparr>"
  by (auto simp add: withdrawRemaining_def requestDecryption_def Let_def split: if_splits)

lemma callbackPayBonus_enter_Inr:
  "callbackPayBonus_enter s r v p = Inr (s1, e, b) \<Longrightarrow>
     status s = 0 \<and> checkSignatures s r v p = Inr () \<and> e = requestToEmployee s r \<and> e \<noteq> 0 \<and>
     b = v \<and> 0 < v \<and> unat v \<le> actualPool s \<and>
     s1 = s\<lparr>status := 1,
            encryptedPool := Encrypted (cleartext (encryptedPool s) - v),
            actualPool := actualPool s - unat v\<rparr>"
  by (auto simp add: callbackPayBonus_enter_def checkSignatures_def FHE_sub_def asEuint64_def Let_def
      split: sum.splits if_splits option.splits)

lemma callbackWithdrawRemaining_enter_Inr:
  "callbackWithdrawRemaining_enter s r v p = Inr (s1, amount) \<Longrightarrow>
     status s = 0 \<and> checkSignatures s r v p = Inr () \<and> r = decryptionRequestIdPool s \<and>
     0 < v \<and> unat v \<le> actualPool s \<and> amount = actualPool s \<and>
     s1 = s\<lparr>status := 1, actualPool := 0, encryptedPool := Encrypted 0,
            decryptionRequestIdPool := 0\<rparr>"
  by (auto simp add: callbackWithdrawRemaining_enter_def checkSignatures_def asEuint64_def Let_def
      split: sum.splits if_splits option.splits)


lemma callbackPayBonus_leave_Inr:
  "callbackPayBonus_leave s r e b sent = Inr s' \<Longrightarrow>
     sent \<and>
     s' = s\<lparr>employees := (employees s)(e := (employees s e)\<lparr>decryptedBonus := b\<rparr>),
            requestToEmployee := (requestToEmployee s)(r := 0),
            trace := trace s @ [BonusWithdrawn e b],
            status := 0\<rparr>"
  by (auto simp add: callbackPayBonus_leave_def split: if_splits)

lemma callbackWithdrawRemaining_leave_Inr:
  "callbackWithdrawRemaining_leave s amount sent = Inr s' \<Longrightarrow>
     sent \<and>
     s' = s\<lparr>trace := trace s @ [RemainingWithdrawn (manager s) (word_of_nat amount)],
            status := 0\<rparr>"
  by (auto simp add: callbackWithdrawRemaining_leave_def split: if_splits)

lemma keeps_refl: "keeps s s"
  by (simp add: keeps_def)

lemma keeps_trans:
  assumes st: "keeps s t" and tu: "keeps t u"
  shows "keeps s u"
proof -
  have le: "counterRequest s \<le> counterRequest t" "counterRequest t \<le> counterRequest u"
    using st tu by (simp_all add: keeps_def)
  have req: "requestedHandles u r = requestedHandles s r \<and>
      (requestToEmployee s r = 0 \<longrightarrow> requestToEmployee u r = 0)"
    if "r < counterRequest s" for r
  proof -
    from that le have "r < counterRequest t" by simp
    with st tu that show ?thesis by (simp add: keeps_def)
  qed
  have flags: "(hasWithdrawn (employees s a) \<longrightarrow> hasWithdrawn (employees u a)) \<and>
      (hasCommitted (employees s a) \<longrightarrow> hasCommitted (employees u a))" for a
    using st tu by (simp add: keeps_def)
  have fixed: "manager u = manager s" "rolePercentage u = rolePercentage s"
    using st tu by (simp_all add: keeps_def)
  show ?thesis
    unfolding keeps_def using fixed le req flags by simp
qed

lemma fundPool_keeps:
  "fundPool s a v e p = Inr s' \<Longrightarrow> keeps s s' \<and> status s' = status s"
  by (drule fundPool_Inr) (simp add: keeps_def)

lemma callbackVerifyPool_keeps:
  "callbackVerifyPool s r v p = Inr s' \<Longrightarrow> keeps s s' \<and> status s' = status s"
  by (drule callbackVerifyPool_Inr) (simp add: keeps_def)

lemma commitPerformance_keeps:
  "commitPerformance s a e p r = Inr s' \<Longrightarrow> keeps s s' \<and> status s' = status s"
  by (drule commitPerformance_Inr) (simp add: keeps_def)

lemma withdrawBonus_keeps:
  "withdrawBonus s a = Inr s' \<Longrightarrow> keeps s s' \<and> status s' = status s"
  by (drule withdrawBonus_Inr) (simp add: keeps_def)

lemma withdrawRemaining_keeps:
  "withdrawRemaining s a = Inr s' \<Longrightarrow> keeps s s' \<and> status s' = status s"
  by (drule withdrawRemaining_Inr) (simp add: keeps_def)

lemma fundPool_sound:
  "fundPool s a v e p = Inr s' \<Longrightarrow> sound s \<Longrightarrow>
     sound s' \<and> (\<forall>x. decryptedBonus (employees s' x) = decryptedBonus (employees s x))"
  by (drule fundPool_Inr) (simp add: sound_def)

lemma callbackVerifyPool_sound:
  "callbackVerifyPool s r v p = Inr s' \<Longrightarrow> sound s \<Longrightarrow>
     sound s' \<and> (\<forall>x. decryptedBonus (employees s' x) = decryptedBonus (employees s x))"
  by (drule callbackVerifyPool_Inr) (simp add: sound_def)

lemma commitPerformance_sound:
  "commitPerformance s a e p r = Inr s' \<Longrightarrow> sound s \<Longrightarrow>
     sound s' \<and> (\<forall>x. decryptedBonus (employees s' x) = decryptedBonus (employees s x))"
  by (drule commitPerformance_Inr) (auto simp add: sound_def)

lemma withdrawBonus_sound:
  "withdrawBonus s a = Inr s' \<Longrightarrow> sound s \<Longrightarrow>
     sound s' \<and> (\<forall>x. decryptedBonus (employees s' x) = decryptedBonus (employees s x))"
  by (drule withdrawBonus_Inr) (auto simp add: sound_def)

lemma withdrawRemaining_sound:
  "withdrawRemaining s a = Inr s' \<Longrightarrow> sound s \<Longrightarrow>
     sound s' \<and> (\<forall>x. decryptedBonus (employees s' x) = decryptedBonus (employees s x))"
  by (drule withdrawRemaining_Inr) (auto simp add: sound_def)


lemma callbackPayBonus_enter_locked:
  "status s \<noteq> 0 \<Longrightarrow> callbackPayBonus_enter s r v p = Inl Reentrancy"
  by (simp add: callbackPayBonus_enter_def)

lemma callbackWithdrawRemaining_enter_locked:
  "status s \<noteq> 0 \<Longrightarrow> callbackWithdrawRemaining_enter s r v p = Inl Reentrancy"
  by (simp add: callbackWithdrawRemaining_enter_def)

lemma exec_locked_keeps:
  "status s \<noteq> 0 \<Longrightarrow> exec s c = Inr s' \<Longrightarrow> keeps s s' \<and> status s' = status s"
  by (cases c)
    (simp_all add: fundPool_keeps callbackVerifyPool_keeps commitPerformance_keeps
      withdrawBonus_keeps withdrawRemaining_keeps callbackPayBonus_enter_locked
      callbackWithdrawRemaining_enter_locked)

lemma exec_locked_sound:
  "status s \<noteq> 0 \<Longrightarrow> exec s c = Inr s' \<Longrightarrow> sound s \<Longrightarrow>
     sound s' \<and> (\<forall>x. decryptedBonus (employees s' x) = decryptedBonus (employees s x))"
  by (cases c)
    (simp_all add: fundPool_sound callbackVerifyPool_sound commitPerformance_sound
      withdrawBonus_sound withdrawRemaining_sound callbackPayBonus_enter_locked
      callbackWithdrawRemaining_enter_locked)

lemma run_Nil [simp]: "run s [] = s"
  by (simp add: run_def)

lemma run_Cons [simp]: "run s (c # cs) = run (settle s (exec s c)) cs"
  by (simp add: run_def)

lemma run_append: "run s (cs @ ds) = run (run s cs) ds"
  by (simp add: run_def)

lemma run_locked:
  "status s \<noteq> 0 \<Longrightarrow>
     keeps s (run s cs) \<and> status (run s cs) = status s \<and>
     (sound s \<longrightarrow> sound (run s cs) \<and>
        (\<forall>x. decryptedBonus (employees (run s cs) x) = decryptedBonus (employees s x)))"
proof (induction cs arbitrary: s)
  case Nil
  then show ?case by (simp add: keeps_refl)
next
  case (Cons c cs)
  let ?t = "settle s (exec s c)"
  have t: "keeps s ?t \<and> status ?t = status s \<and>
     (sound s \<longrightarrow> sound ?t \<and>
        (\<forall>x. decryptedBonus (employees ?t x) = decryptedBonus (employees s x)))"
  proof (cases "exec s c")
    case (Inl e)
    then show ?thesis by (simp add: settle_def keeps_refl)
  next
    case (Inr s')
    with Cons.prems exec_locked_keeps [of s c s'] exec_locked_sound [of s c s']
    show ?thesis by (simp add: settle_def)
  qed
  then have "status ?t \<noteq> 0" using Cons.prems by simp
  from Cons.IH [OF this] t show ?case
    by (auto intro: keeps_trans)
qed


lemma exec_CallbackPayBonus_Inr:
  assumes "exec s (CallbackPayBonus r v p cs sent) = Inr s'"
  obtains s1 where
    "callbackPayBonus_enter s r v p = Inr (s1, requestToEmployee s r, v)"
    "callbackPayBonus_leave (run (sendETH s1 (requestToEmployee s r) (unat v)) cs) r
        (requestToEmployee s r) v sent = Inr s'"
proof (cases "callbackPayBonus_enter s r v p")
  case (Inl e)
  with assms show ?thesis by simp
next
  case (Inr x)
  obtain s1 e b where x: "x = (s1, e, b)" by (cases x)
  from callbackPayBonus_enter_Inr [of s r v p s1 e b] Inr x
  have "e = requestToEmployee s r" "b = v" by simp_all
  with assms Inr x that [of s1] show ?thesis by (simp add: run_def)
qed

lemma exec_CallbackWithdrawRemaining_Inr:
  assumes "exec s (CallbackWithdrawRemaining r v p cs sent) = Inr s'"
  obtains s1 where
    "callbackWithdrawRemaining_enter s r v p = Inr (s1, actualPool s)"
    "callbackWithdrawRemaining_leave (run (sendETH s1 (manager s) (actualPool s)) cs)
        (actualPool s) sent = Inr s'"
proof (cases "callbackWithdrawRemaining_enter s r v p")
  case (Inl e)
  with assms show ?thesis by simp
next
  case (Inr x)
  obtain s1 amount where x: "x = (s1, amount)" by (cases x)
  from callbackWithdrawRemaining_enter_Inr [of s r v p s1 amount] Inr x
  have "amount = actualPool s" "manager s1 = manager s" by simp_all
  with assms Inr x that [of s1] show ?thesis by (simp add: run_def)
qed

lemma sendETH_keeps: "keeps s (sendETH s a n) \<and> status (sendETH s a n) = status s"
  by (simp add: sendETH_def keeps_def)

lemma sendETH_sound: "sound (sendETH s a n) = sound s"
  by (simp add: sendETH_def sound_def)

lemma sendETH_employees: "employees (sendETH s a n) = employees s"
  by (simp add: sendETH_def)

lemma callbackPayBonus_keeps:
  assumes "exec s (CallbackPayBonus r v p cs sent) = Inr s'"
  shows "keeps s s' \<and> status s' = status s"
proof -
  from assms obtain s1 where
    enter: "callbackPayBonus_enter s r v p = Inr (s1, requestToEmployee s r, v)" and
    leave: "callbackPayBonus_leave (run (sendETH s1 (requestToEmployee s r) (unat v)) cs) r
        (requestToEmployee s r) v sent = Inr s'"
    by (rule exec_CallbackPayBonus_Inr)
  let ?e = "requestToEmployee s r"
  let ?t = "sendETH s1 ?e (unat v)"
  from callbackPayBonus_enter_Inr [OF enter]
  have s0: "status s = 0" and k1: "keeps s s1" and st1: "status s1 = 1"
    by (simp_all add: keeps_def)
  have k2: "keeps s1 ?t" and st2: "status ?t \<noteq> 0"
    using sendETH_keeps [of s1 ?e "unat v"] st1 by simp_all
  have k3: "keeps ?t (run ?t cs)"
    using run_locked [OF st2, of cs] by simp
  have k4: "keeps (run ?t cs) s'" and st4: "status s' = 0"
    using callbackPayBonus_leave_Inr [OF leave] by (simp_all add: keeps_def)
  from k1 k2 k3 k4 have "keeps s s'" by (blast intro: keeps_trans)
  with s0 st4 show ?thesis by simp
qed

lemma callbackPayBonus_sound:
  assumes "exec s (CallbackPayBonus r v p cs sent) = Inr s'" and "sound s"
  shows "sound s'"
proof -
  from assms(1) obtain s1 where
    enter: "callbackPayBonus_enter s r v p = Inr (s1, requestToEmployee s r, v)" and
    leave: "callbackPayBonus_leave (run (sendETH s1 (requestToEmployee s r) (unat v)) cs) r
        (requestToEmployee s r) v sent = Inr s'"
    by (rule exec_CallbackPayBonus_Inr)
  let ?e = "requestToEmployee s r"
  let ?t = "sendETH s1 ?e (unat v)"
  let ?u = "run ?t cs"
  note e = callbackPayBonus_enter_Inr [OF enter]
  from e have ne: "?e \<noteq> 0" by simp
  with \<open>sound s\<close> have w: "hasWithdrawn (employees s ?e)" by (simp add: sound_def)
  from e \<open>sound s\<close> have so1: "sound s1" by (simp add: sound_def)
  from e w have w1: "hasWithdrawn (employees s1 ?e)" by simp
  from e have st: "status ?t \<noteq> 0" by (simp add: sendETH_def)
  from so1 have sot: "sound ?t" by (simp add: sendETH_sound)
  from run_locked [OF st, of cs] sot have sou: "sound ?u" and ku: "keeps ?t ?u" by simp_all
  from ku w1 have wu: "hasWithdrawn (employees ?u ?e)"
    by (simp add: keeps_def sendETH_employees)
  from callbackPayBonus_leave_Inr [OF leave] sou wu show ?thesis
    by (auto simp add: sound_def)
qed

lemma callbackWithdrawRemaining_keeps:
  assumes "exec s (CallbackWithdrawRemaining r v p cs sent) = Inr s'"
  shows "keeps s s' \<and> status s' = status s"
proof -
  from assms obtain s1 where
    enter: "callbackWithdrawRemaining_enter s r v p = Inr (s1, actualPool s)" and
    leave: "callbackWithdrawRemaining_leave (run (sendETH s1 (manager s) (actualPool s)) cs)
        (actualPool s) sent = Inr s'"
    by (rule exec_CallbackWithdrawRemaining_Inr)
  let ?t = "sendETH s1 (manager s) (actualPool s)"
  from callbackWithdrawRemaining_enter_Inr [OF enter]
  have s0: "status s = 0" and k1: "keeps s s1" and st1: "status s1 = 1"
    by (simp_all add: keeps_def)
  have k2: "keeps s1 ?t" and st2: "status ?t \<noteq> 0"
    using sendETH_keeps [of s1 "manager s" "actualPool s"] st1 by simp_all
  have k3: "keeps ?t (run ?t cs)"
    using run_locked [OF st2, of cs] by simp
  have k4: "keeps (run ?t cs) s'" and st4: "status s' = 0"
    using callbackWithdrawRemaining_leave_Inr [OF leave] by (simp_all add: keeps_def)
  from k1 k2 k3 k4 have "keeps s s'" by (blast intro: keeps_trans)
  with s0 st4 show ?thesis by simp
qed

lemma callbackWithdrawRemaining_sound:
  assumes "exec s (CallbackWithdrawRemaining r v p cs sent) = Inr s'" and "sound s"
  shows "sound s' \<and> (\<forall>x. decryptedBonus (employees s' x) = decryptedBonus (employees s x))"
proof -
  from assms(1) obtain s1 where
    enter: "callbackWithdrawRemaining_enter s r v p = Inr (s1, actualPool s)" and
    leave: "callbackWithdrawRemaining_leave (run (sendETH s1 (manager s) (actualPool s)) cs)
        (actualPool s) sent = Inr s'"
    by (rule exec_CallbackWithdrawRemaining_Inr)
  let ?t = "sendETH s1 (manager s) (actualPool s)"
  let ?u = "run ?t cs"
  note e = callbackWithdrawRemaining_enter_Inr [OF enter]
  from e \<open>sound s\<close> have so1: "sound s1" and em1: "employees s1 = employees s"
    by (simp_all add: sound_def)
  from e have st: "status ?t \<noteq> 0" by (simp add: sendETH_def)
  from so1 have sot: "sound ?t" by (simp add: sendETH_sound)
  from run_locked [OF st, of cs] sot have sou: "sound ?u" and
    bu: "\<forall>x. decryptedBonus (employees ?u x) = decryptedBonus (employees ?t x)" by simp_all
  from callbackWithdrawRemaining_leave_Inr [OF leave] sou bu em1 show ?thesis
    by (auto simp add: sound_def sendETH_employees)
qed

lemma exec_keeps:
  "exec s c = Inr s' \<Longrightarrow> keeps s s' \<and> status s' = status s"
proof (cases c)
  case (CallbackPayBonus r v p cs sent)
  then show "exec s c = Inr s' \<Longrightarrow> ?thesis" using callbackPayBonus_keeps by simp
next
  case (CallbackWithdrawRemaining r v p cs sent)
  then show "exec s c = Inr s' \<Longrightarrow> ?thesis" using callbackWithdrawRemaining_keeps by simp
qed (simp_all add: fundPool_keeps callbackVerifyPool_keeps commitPerformance_keeps
      withdrawBonus_keeps withdrawRemaining_keeps)

lemma exec_sound:
  "exec s c = Inr s' \<Longrightarrow> sound s \<Longrightarrow> sound s'"
proof (cases c)
  case (CallbackPayBonus r v p cs sent)
  then show "exec s c = Inr s' \<Longrightarrow> sound s \<Longrightarrow> ?thesis" using callbackPayBonus_sound by simp
next
  case (CallbackWithdrawRemaining r v p cs sent)
  then show "exec s c = Inr s' \<Longrightarrow> sound s \<Longrightarrow> ?thesis"
    using callbackWithdrawRemaining_sound by simp
qed (simp_all add: fundPool_sound callbackVerifyPool_sound commitPerformance_sound
      withdrawBonus_sound withdrawRemaining_sound)

lemma run_keeps:
  "keeps s (run s cs) \<and> status (run s cs) = status s \<and> (sound s \<longrightarrow> sound (run s cs))"
proof (induction cs arbitrary: s)
  case Nil
  then show ?case by (simp add: keeps_refl)
next
  case (Cons c cs)
  let ?t = "settle s (exec s c)"
  have t: "keeps s ?t \<and> status ?t = status s \<and> (sound s \<longrightarrow> sound ?t)"
  proof (cases "exec s c")
    case (Inl e)
    then show ?thesis by (simp add: settle_def keeps_refl)
  next
    case (Inr s')
    with exec_keeps [of s c s'] exec_sound [of s c s']
    show ?thesis by (simp add: settle_def)
  qed
  from Cons.IH [of ?t] t show ?case
    by (auto intro: keeps_trans)
qed

lemma constructor_sound: "sound (constructor m c0) \<and> status (constructor m c0) = 0"
  by (simp add: constructor_def sound_def asEuint64_def)

lemma reachable_sound:
  "sound (run (constructor m c0) cs) \<and> status (run (constructor m c0) cs) = 0"
  using run_keeps [of "constructor m c0" cs] constructor_sound [of m c0] by simp

subsection \<open>The callbacks that send ether\<close>

lemma exec_CallbackPayBonus_run:
  "exec s (CallbackPayBonus r v p cs sent) =
     (case callbackPayBonus_enter s r v p of
        Inl e \<Rightarrow> Inl e
      | Inr (s1, employee, bonus) \<Rightarrow>
          callbackPayBonus_leave (run (sendETH s1 employee (unat bonus)) cs) r employee bonus sent)"
  unfolding run_def by simp

lemma exec_CallbackWithdrawRemaining_run:
  "exec s (CallbackWithdrawRemaining r v p cs sent) =
     (case callbackWithdrawRemaining_enter s r v p of
        Inl e \<Rightarrow> Inl e
      | Inr (s1, amount) \<Rightarrow>
          callbackWithdrawRemaining_leave (run (sendETH s1 (manager s1) amount) cs) amount sent)"
  unfolding run_def by simp

lemma checkSignatures_Inr:
  "checkSignatures s r v p = Inr () \<longleftrightarrow>
     (\<exists>h. requestedHandles s r = Some h \<and> p \<and> v = cleartext h)"
  by (auto simp add: checkSignatures_def split: option.splits)

lemma callbackPayBonus_decryptedBonus:
  assumes ex: "exec s (CallbackPayBonus r v p cs sent) = Inr s'" and so: "sound s"
  shows "decryptedBonus (employees s' a) =
     (if a = requestToEmployee s r then v else decryptedBonus (employees s a))"
proof -
  from ex obtain s1 where
    enter: "callbackPayBonus_enter s r v p = Inr (s1, requestToEmployee s r, v)" and
    leave: "callbackPayBonus_leave (run (sendETH s1 (requestToEmployee s r) (unat v)) cs) r
        (requestToEmployee s r) v sent = Inr s'"
    by (rule exec_CallbackPayBonus_Inr)
  let ?e = "requestToEmployee s r"
  let ?t = "sendETH s1 ?e (unat v)"
  let ?u = "run ?t cs"
  note e = callbackPayBonus_enter_Inr [OF enter]
  from e so have so1: "sound s1" and em1: "employees s1 = employees s"
    by (simp_all add: sound_def)
  from e have st: "status ?t \<noteq> 0" by (simp add: sendETH_def)
  from so1 have sot: "sound ?t" by (simp add: sendETH_sound)
  from run_locked [OF st, of cs] sot
  have bu: "decryptedBonus (employees ?u a) = decryptedBonus (employees ?t a)"
    by simp
  from callbackPayBonus_leave_Inr [OF leave] bu em1 show ?thesis
    by (simp add: sendETH_employees)
qed

lemma exec_decryptedBonus:
  assumes ex: "exec s c = Inr s'" and so: "sound s"
    and ch: "decryptedBonus (employees s' a) \<noteq> decryptedBonus (employees s a)"
  shows "hasWithdrawn (employees s a) \<and>
    (\<exists>r v p cs sent. c = CallbackPayBonus r v p cs sent \<and> requestToEmployee s r = a \<and>
       decryptedBonus (employees s' a) = v)"
proof (cases c)
  case (FundPool x1 x2 x3 x4)
  with ex so ch fundPool_sound [of s x1 x2 x3 x4 s'] show ?thesis by simp
next
  case (CallbackVerifyPool x1 x2 x3)
  with ex so ch callbackVerifyPool_sound [of s x1 x2 x3 s'] show ?thesis by simp
next
  case (CommitPerformance x1 x2 x3 x4)
  with ex so ch commitPerformance_sound [of s x1 x2 x3 x4 s'] show ?thesis by simp
next
  case (WithdrawBonus x1)
  with ex so ch withdrawBonus_sound [of s x1 s'] show ?thesis by simp
next
  case (WithdrawRemaining x1)
  with ex so ch withdrawRemaining_sound [of s x1 s'] show ?thesis by simp
next
  case (CallbackWithdrawRemaining r v p cs sent)
  with ex so ch callbackWithdrawRemaining_sound [of s r v p cs sent s'] show ?thesis by simp
next
  case (CallbackPayBonus r v p cs sent)
  with ex have ex': "exec s (CallbackPayBonus r v p cs sent) = Inr s'" by simp
  from callbackPayBonus_decryptedBonus [OF ex' so, of a] ch
  have a: "a = requestToEmployee s r" and v: "decryptedBonus (employees s' a) = v"
    by (simp_all split: if_splits)
  from ex' obtain s1 where
    enter: "callbackPayBonus_enter s r v p = Inr (s1, requestToEmployee s r, v)"
    by (rule exec_CallbackPayBonus_Inr)
  from callbackPayBonus_enter_Inr [OF enter] a have "requestToEmployee s r \<noteq> 0" by simp
  with so a have "hasWithdrawn (employees s a)" by (simp add: sound_def)
  with a v CallbackPayBonus show ?thesis by blast
qed

subsection \<open>The arithmetic of the bonus\<close>

lemma unat_mult_uint64: "unat (a * b :: uint64) = unat a * unat b mod 2 ^ 64"
  by (simp add: unat_word_ariths)

lemma encryptedBonus_unat:
  "unat (cleartext (encryptedBonus perf pct pool)) =
     ((unat (cleartext perf) * unat pct mod 2 ^ 64) div 100 * unat (cleartext pool) mod 2 ^ 64)
       div 10000"
proof -
  have h: "unat (100 :: uint64) = 100" "unat (10000 :: uint64) = 10000" by simp_all
  show ?thesis
    unfolding encryptedBonus_def FHE_mul_def FHE_div_def asEuint64_def Let_def cleartext_Encrypted
    by (simp only: unat_div unat_mult_uint64 h)
qed

lemma encryptedBonus_exact:
  assumes "unat (cleartext perf) * unat pct < 2 ^ 64"
    and "unat (cleartext perf) * unat pct div 100 * unat (cleartext pool) < 2 ^ 64"
  shows "unat (cleartext (encryptedBonus perf pct pool)) =
     unat (cleartext perf) * unat pct div 100 * unat (cleartext pool) div 10000"
  using assms by (simp only: encryptedBonus_unat mod_less)

lemma bonus_formula_mono:
  fixes a b p q k :: nat
  assumes "a \<le> b" "p \<le> q"
  shows "a * p div 100 * k div 10000 \<le> b * q div 100 * k div 10000"
  by (intro div_le_mono mult_le_mono assms order_refl)

lemma encryptedBonus_mono:
  assumes le: "unat (cleartext perf1) \<le> unat (cleartext perf2)" "unat pct1 \<le> unat pct2"
    and b1: "unat (cleartext perf2) * unat pct2 < 2 ^ 64"
    and b2: "unat (cleartext perf2) * unat pct2 div 100 * unat (cleartext pool) < 2 ^ 64"
  shows "cleartext (encryptedBonus perf1 pct1 pool) \<le> cleartext (encryptedBonus perf2 pct2 pool)"
proof -
  have m: "unat (cleartext perf1) * unat pct1 \<le> unat (cleartext perf2) * unat pct2"
    by (intro mult_le_mono le)
  from m b1 have c1: "unat (cleartext perf1) * unat pct1 < 2 ^ 64"
    by (rule le_less_trans)
  have "unat (cleartext perf1) * unat pct1 div 100 * unat (cleartext pool)
      \<le> unat (cleartext perf2) * unat pct2 div 100 * unat (cleartext pool)"
    by (intro mult_le_mono div_le_mono order_refl le)
  from this b2 have c2: "unat (cleartext perf1) * unat pct1 div 100 * unat (cleartext pool) < 2 ^ 64"
    by (rule le_less_trans)
  show ?thesis
    unfolding word_le_nat_alt encryptedBonus_exact [OF c1 c2] encryptedBonus_exact [OF b1 b2]
    by (rule bonus_formula_mono [OF le])
qed

lemma rolePercentage_rank:
  "rank t1 \<le> rank t2 \<Longrightarrow>
     unat (rolePercentage (constructor m c0) t1) \<le> unat (rolePercentage (constructor m c0) t2)"
  by (cases t1; cases t2) (simp_all add: rank_def constructor_def)

subsection \<open>Evaluating a sequence of calls\<close>

text \<open>The definitions that a sequence of calls from the constructor unfolds to.\<close>

lemmas run_defs = settle_def fundPool_def callbackVerifyPool_def commitPerformance_def
  withdrawBonus_def withdrawBonus_enter_def callbackPayBonus_enter_def callbackPayBonus_leave_def
  withdrawRemaining_def
  callbackWithdrawRemaining_enter_def callbackWithdrawRemaining_leave_def sendETH_def
  requestDecryption_def checkSignatures_def fromExternal_def FHE_add_def FHE_sub_def
  FHE_mul_def FHE_div_def asEuint64_def isInitialized_def encryptedBonus_def
  constructor_def Let_def

lemma scenario:
  assumes "b \<noteq> 0"
  shows "let t = run (constructor m c0)
                 [FundPool m 1000000 1000000 True, CommitPerformance b 80 True Mid,
                  WithdrawBonus b]
       in requestToEmployee t (c0 + 1) = b \<and>
          requestedHandles t (c0 + 1) = Some (Encrypted 64000) \<and>
          (\<exists>t'. exec t (CallbackPayBonus (c0 + 1) 64000 True [] True) = Inr t') \<and>
          (\<forall>v p sent t'. exec t (CallbackPayBonus (c0 + 1) v p [] sent) = Inr t' \<longrightarrow>
             v = 64000 \<and> actualPool t' = 936000 \<and> decryptedBonus (employees t' b) = 64000 \<and>
             trace t' = trace t @ [Transfer b 64000, BonusWithdrawn b 64000])"
proof -
  let ?t = "run (constructor m c0)
                 [FundPool m 1000000 1000000 True, CommitPerformance b 80 True Mid,
                  WithdrawBonus b]"
  have 1: "requestToEmployee ?t (c0 + 1) = b"
    by (simp add: run_defs)
  have 2: "requestedHandles ?t (c0 + 1) = Some (Encrypted 64000)"
    by (simp add: run_defs)
  have 3: "\<exists>t'. exec ?t (CallbackPayBonus (c0 + 1) 64000 True [] True) = Inr t'"
    using assms by (simp add: run_defs)
  have 4: "v = 64000 \<and> actualPool t' = 936000 \<and> decryptedBonus (employees t' b) = 64000 \<and>
             trace t' = trace ?t @ [Transfer b 64000, BonusWithdrawn b 64000]"
    if "exec ?t (CallbackPayBonus (c0 + 1) v p [] sent) = Inr t'" for v p sent t'
    using that assms by (auto simp add: run_defs split: if_splits)
  from 1 2 3 4 show ?thesis
    unfolding Let_def by blast
qed


lemma rolePercentage_run:
  "rolePercentage (run (constructor m c0) cs) = rolePercentage (constructor m c0)"
  using run_keeps [of "constructor m c0" cs] by (simp add: keeps_def)

lemma rolePercentage_values:
  "rolePercentage (run (constructor m c0) cs) Intern = 200"
  "rolePercentage (run (constructor m c0) cs) Junior = 500"
  "rolePercentage (run (constructor m c0) cs) Mid = 800"
  "rolePercentage (run (constructor m c0) cs) Senior = 1200"
  "rolePercentage (run (constructor m c0) cs) Lead = 2000"
  by (simp_all add: rolePercentage_run) (simp_all add: constructor_def)

subsection \<open>The claims\<close>

text \<open>
  C1: \<open>callbackVerifyPool\<close> compares the decrypted amount of one funding with the whole
  cleartext pool at the time of the callback, where the comment in \<open>fundPool\<close> announces a
  comparison of the encrypted amount with \<open>msg.value\<close>. A first funding of 100 is
  verified. A second funding that declares 50 and encrypts 50 is then rejected with the
  mismatch error (the pool holds 150), and a second funding that declares 50 and encrypts
  150 is accepted; the pool then holds 150 in the clear and 250 encrypted.
\<close>

theorem verifyFunding_checks_whole_pool:
  "exec (run (constructor m c0) [FundPool m 100 100 True]) (CallbackVerifyPool c0 100 True)
     = Inr ((run (constructor m c0) [FundPool m 100 100 True])\<lparr>decryptionRequestIdPool := 0\<rparr>) \<and>
   requestedHandles
     (run (constructor m c0)
        [FundPool m 100 100 True, CallbackVerifyPool c0 100 True, FundPool m 50 50 True])
     (c0 + 1) = Some (Encrypted 50) \<and>
   actualPool
     (run (constructor m c0)
        [FundPool m 100 100 True, CallbackVerifyPool c0 100 True, FundPool m 50 50 True])
     = 150 \<and>
   exec (run (constructor m c0)
           [FundPool m 100 100 True, CallbackVerifyPool c0 100 True, FundPool m 50 50 True])
     (CallbackVerifyPool (c0 + 1) 50 True) = Inl EncryptedPoolMismatch \<and>
   exec (run (constructor m c0)
           [FundPool m 100 100 True, CallbackVerifyPool c0 100 True, FundPool m 50 150 True])
     (CallbackVerifyPool (c0 + 1) 150 True)
     = Inr ((run (constructor m c0)
               [FundPool m 100 100 True, CallbackVerifyPool c0 100 True,
                FundPool m 50 150 True])\<lparr>decryptionRequestIdPool := 0\<rparr>) \<and>
   actualPool
     (run (constructor m c0)
        [FundPool m 100 100 True, CallbackVerifyPool c0 100 True, FundPool m 50 150 True])
     = 150 \<and>
   cleartext (encryptedPool
     (run (constructor m c0)
        [FundPool m 100 100 True, CallbackVerifyPool c0 100 True, FundPool m 50 150 True]))
     = 250"
  by (simp add: run_defs)

text \<open>
  C2: \<open>withdrawBonus\<close> computes the bonus as the spec writes it, the product with the
  percentage divided by 100, then the product with the pool divided by 10000, on \<open>euint64\<close>
  operands and without a guard against overflow (\<open>encryptedBonus_exact\<close>: the result is
  \<open>floor (floor (score * pct / 100) * pool / 10000)\<close> whenever neither product reaches
  \<open>2^64\<close>). In the scenario of the spec the handle registered for the request holds 64000
  and the settlement leaves 936000. With a pool of \<open>10^18\<close> wei (one ether), the score 80
  and the role Mid, the second product wraps: the handle holds 1281070149387524 where the
  formula gives \<open>64 * 10^15\<close>, and that is what the settlement pays. With two fundings
  of \<open>5 * 10^15\<close> wei, the score 100 and the role Lead, the handle holds 155325592629044
  where the formula gives \<open>2 * 10^15\<close>.
\<close>

theorem bonus_wraps_at_one_ether:
  "requestedHandles (run (constructor 1 7)
       [FundPool 1 1000000000000000000 1000000000000000000 True,
        CommitPerformance 2 80 True Mid, WithdrawBonus 2]) 8
     = Some (Encrypted 1281070149387524) \<and>
   (80 * 800 div 100 * 1000000000000000000 div 10000 :: nat) = 64000000000000000 \<and>
   actualPool (run (constructor 1 7)
       [FundPool 1 1000000000000000000 1000000000000000000 True,
        CommitPerformance 2 80 True Mid, WithdrawBonus 2,
        CallbackPayBonus 8 1281070149387524 True [] True])
     = 1000000000000000000 - 1281070149387524 \<and>
   trace (run (constructor 1 7)
       [FundPool 1 1000000000000000000 1000000000000000000 True,
        CommitPerformance 2 80 True Mid, WithdrawBonus 2,
        CallbackPayBonus 8 1281070149387524 True [] True])
     = [PoolFunded 1 1000000000000000000 7, PerformanceCommitted 2 Mid, BonusCalculated 8 2,
        Transfer 2 1281070149387524, BonusWithdrawn 2 1281070149387524] \<and>
   requestedHandles (run (constructor 1 7)
       [FundPool 1 5000000000000000 5000000000000000 True,
        FundPool 1 5000000000000000 5000000000000000 True,
        CommitPerformance 2 100 True Lead, WithdrawBonus 2]) 9
     = Some (Encrypted 155325592629044) \<and>
   (100 * 2000 div 100 * 10000000000000000 div 10000 :: nat) = 2000000000000000 \<and>
   requestedHandles (run (constructor 1 7)
       [FundPool 1 1000000 1000000 True, CommitPerformance 2 80 True Mid, WithdrawBonus 2]) 8
     = Some (Encrypted 64000) \<and>
   actualPool (run (constructor 1 7)
       [FundPool 1 1000000 1000000 True, CommitPerformance 2 80 True Mid, WithdrawBonus 2,
        CallbackPayBonus 8 64000 True [] True]) = 936000"
  by (simp add: run_defs)

text \<open>
  C3: a bonus settlement succeeds at most once for a request identifier. When
  \<open>callbackPayBonus\<close> has succeeded for \<open>r\<close>, in a storage that the contract reaches
  from its construction, the request is removed from \<open>requestToEmployee\<close>; after any
  further calls, a second delivery for \<open>r\<close> fails: with \<open>InvalidEmployee\<close> (the request
  is unknown) for the payload of the first delivery, at the check of the signatures for
  any other payload. The failed delivery leaves the storage and the trace as they were,
  so nothing is paid twice.
\<close>

theorem payBonus_settles_once:
  assumes first: "exec (run (constructor m c0) pre) (CallbackPayBonus r v p cs sent) = Inr s'"
  shows "requestToEmployee s' r = 0 \<and>
    exec (run s' later) (CallbackPayBonus r v2 p2 cs2 sent2) =
      Inl (if p2 \<and> v2 = v then InvalidEmployee else InvalidKMSSignatures) \<and>
    settle (run s' later) (exec (run s' later) (CallbackPayBonus r v2 p2 cs2 sent2)) =
      run s' later"
proof -
  let ?s = "run (constructor m c0) pre"
  let ?u = "run s' later"
  have so: "sound ?s" and st: "status ?s = 0"
    by (simp_all add: reachable_sound)
  from first obtain s1 where
    enter: "callbackPayBonus_enter ?s r v p = Inr (s1, requestToEmployee ?s r, v)" and
    leave: "callbackPayBonus_leave (run (sendETH s1 (requestToEmployee ?s r) (unat v)) cs) r
        (requestToEmployee ?s r) v sent = Inr s'"
    by (rule exec_CallbackPayBonus_Inr)
  from callbackPayBonus_enter_Inr [OF enter] obtain h where
    h: "requestedHandles ?s r = Some h" "v = cleartext h"
    by (auto simp add: checkSignatures_Inr)
  have r: "r < counterRequest ?s"
  proof (rule ccontr)
    assume "\<not> r < counterRequest ?s"
    with so have "requestedHandles ?s r = None" by (simp add: sound_def)
    with h show False by simp
  qed
  from callbackPayBonus_leave_Inr [OF leave] have z: "requestToEmployee s' r = 0"
    by simp
  from exec_keeps [OF first] st have k: "keeps ?s s'" and st': "status s' = 0"
    by simp_all
  from k r h have r': "r < counterRequest s'" and h': "requestedHandles s' r = Some h"
    by (simp_all add: keeps_def)
  from run_keeps [of s' later] st' have ku: "keeps s' ?u" and stu: "status ?u = 0"
    by simp_all
  from ku r' h' z have hu: "requestedHandles ?u r = Some h" and zu: "requestToEmployee ?u r = 0"
    by (simp_all add: keeps_def)
  have fail: "callbackPayBonus_enter ?u r v2 p2 =
      Inl (if p2 \<and> v2 = v then InvalidEmployee else InvalidKMSSignatures)"
    using stu hu zu h by (simp add: callbackPayBonus_enter_def checkSignatures_def)
  then have "exec ?u (CallbackPayBonus r v2 p2 cs2 sent2) =
      Inl (if p2 \<and> v2 = v then InvalidEmployee else InvalidKMSSignatures)"
    by (simp add: exec_CallbackPayBonus_run)
  with z show ?thesis by (simp add: settle_simps)
qed

text \<open>
  The theorem for the bonus request of the scenario, delivered a second time after a
  withdrawal request of the manager.
\<close>

theorem payBonus_settles_once_witness:
  "exec (run (constructor 1 7)
           [FundPool 1 1000000 1000000 True, CommitPerformance 2 80 True Mid, WithdrawBonus 2])
     (CallbackPayBonus 8 64000 True [] True)
   = Inr (run (constructor 1 7)
           [FundPool 1 1000000 1000000 True, CommitPerformance 2 80 True Mid, WithdrawBonus 2,
            CallbackPayBonus 8 64000 True [] True]) \<and>
   exec (run (run (constructor 1 7)
                [FundPool 1 1000000 1000000 True, CommitPerformance 2 80 True Mid,
                 WithdrawBonus 2, CallbackPayBonus 8 64000 True [] True])
           [WithdrawRemaining 1])
     (CallbackPayBonus 8 64000 True [] True) = Inl InvalidEmployee"
proof -
  define t where "t = run (constructor 1 7)
           [FundPool 1 1000000 1000000 True, CommitPerformance 2 80 True Mid, WithdrawBonus 2,
            CallbackPayBonus 8 64000 True [] True]"
  have first: "exec (run (constructor 1 7)
           [FundPool 1 1000000 1000000 True, CommitPerformance 2 80 True Mid, WithdrawBonus 2])
     (CallbackPayBonus 8 64000 True [] True) = Inr t"
    unfolding t_def by (simp add: run_defs)
  note th = payBonus_settles_once [OF first, of "[WithdrawRemaining 1]" 64000 True "[]" True]
  from th have "exec (run t [WithdrawRemaining 1]) (CallbackPayBonus 8 64000 True [] True)
      = Inl (if True \<and> (64000 :: uint64) = 64000 then InvalidEmployee else InvalidKMSSignatures)"
    by blast
  then have "exec (run t [WithdrawRemaining 1]) (CallbackPayBonus 8 64000 True [] True)
      = Inl InvalidEmployee"
    by (simp only: simp_thms if_True)
  with first show ?thesis
    unfolding t_def by blast
qed

text \<open>
  C4 (as amended): in every storage that the contract reaches, \<open>withdrawBonus\<close> sets
  \<open>hasWithdrawn\<close> before the decryption request is opened: the storage in which the
  request is opened has the flag set and the request not yet registered. Once
  \<open>hasWithdrawn\<close> is set it stays set through any sequence of calls, and a further
  \<open>withdrawBonus\<close> and a further \<open>commitPerformance\<close> of that employee fail;
  \<open>hasCommitted\<close> is set by the one successful commitment and stays set, a second
  commitment fails. \<open>decryptedBonus\<close> is written by two functions only, in any storage:
  by \<open>commitPerformance\<close>, which sets it to 0, and by \<open>callbackPayBonus\<close> after the
  transfer, which sets it to the bonus paid; every other function, \<open>withdrawBonus\<close>
  included, leaves it as it is. In a storage that the contract reaches, it changes only
  in a successful \<open>callbackPayBonus\<close> for a request of that employee, whose
  \<open>hasWithdrawn\<close> is already set then.
\<close>

theorem participant_flags:
  assumes reached: "s = run (constructor m c0) pre"
  shows
    "(withdrawBonus_enter s a = Inr (s1, bonus) \<longrightarrow>
        \<not> hasWithdrawn (employees s a) \<and> hasWithdrawn (employees s1 a) \<and>
        counterRequest s1 = counterRequest s \<and>
        requestedHandles s1 (counterRequest s1) = None \<and>
        requestToEmployee s1 (counterRequest s1) = 0 \<and>
        withdrawBonus s a =
          (let (requestId, s2) = requestDecryption s1 bonus
           in Inr (s2\<lparr>requestToEmployee := (requestToEmployee s2)(requestId := a),
                      decryptionRequestIdBonus := requestId,
                      trace := trace s2 @ [BonusCalculated requestId a]\<rparr>))) \<and>
     (withdrawBonus s a = Inr s' \<longrightarrow>
        (\<exists>s1 bonus. withdrawBonus_enter s a = Inr (s1, bonus)) \<and>
        \<not> hasWithdrawn (employees s a) \<and> hasWithdrawn (employees s' a) \<and>
        requestToEmployee s' (counterRequest s) = a \<and>
        requestedHandles s' (counterRequest s) \<noteq> None \<and>
        decryptedBonus (employees s' a) = decryptedBonus (employees s a)) \<and>
     (hasWithdrawn (employees s a) \<longrightarrow>
        hasWithdrawn (employees (run s cs) a) \<and>
        withdrawBonus s a = Inl AlreadyWithdrawn \<and>
        commitPerformance s a e p r =
          Inl (if r = None_Role then InvalidRole else AlreadyWithdrawn)) \<and>
     (hasCommitted (employees s a) \<longrightarrow>
        hasCommitted (employees (run s cs) a) \<and>
        commitPerformance s a e p r =
          Inl (if r = None_Role then InvalidRole
               else if hasWithdrawn (employees s a) then AlreadyWithdrawn
               else AlreadyCommittedPerformance)) \<and>
     (commitPerformance s a e p r = Inr s' \<longrightarrow>
        \<not> hasCommitted (employees s a) \<and> hasCommitted (employees s' a) \<and>
        \<not> hasWithdrawn (employees s' a)) \<and>
     (exec s c = Inr s' \<and> decryptedBonus (employees s' a) \<noteq> decryptedBonus (employees s a) \<longrightarrow>
        hasWithdrawn (employees s a) \<and>
        (\<exists>r' v' p' cs' sent'. c = CallbackPayBonus r' v' p' cs' sent' \<and>
           requestToEmployee s r' = a \<and> decryptedBonus (employees s' a) = v')) \<and>
     (fundPool t x n e q = Inr t' \<or> callbackVerifyPool t i v q = Inr t' \<or>
      withdrawBonus t x = Inr t' \<or> withdrawRemaining t x = Inr t' \<or>
      callbackPayBonus_enter t i v q = Inr (t', y, w) \<or>
      callbackWithdrawRemaining_enter t i v q = Inr (t', n) \<or>
      callbackWithdrawRemaining_leave t n q = Inr t' \<longrightarrow>
        decryptedBonus (employees t' a) = decryptedBonus (employees t a)) \<and>
     (commitPerformance t x e q r = Inr t' \<longrightarrow>
        decryptedBonus (employees t' a) =
          (if a = x then 0 else decryptedBonus (employees t a))) \<and>
     (callbackPayBonus_leave t i x w q = Inr t' \<longrightarrow>
        decryptedBonus (employees t' a) =
          (if a = x then w else decryptedBonus (employees t a)))"
proof -
  have so: "sound s" and st: "status s = 0"
    unfolding reached by (simp_all add: reachable_sound)
  have k: "keeps s (run s cs)"
    using run_keeps [of s cs] by simp
  have init: "isInitialized (encryptedPool s)"
    using so by (simp add: sound_def isInitialized_def)
  have 0: "\<not> hasWithdrawn (employees s a) \<and> hasWithdrawn (employees s1 a) \<and>
        counterRequest s1 = counterRequest s \<and>
        requestedHandles s1 (counterRequest s1) = None \<and>
        requestToEmployee s1 (counterRequest s1) = 0 \<and>
        withdrawBonus s a =
          (let (requestId, s2) = requestDecryption s1 bonus
           in Inr (s2\<lparr>requestToEmployee := (requestToEmployee s2)(requestId := a),
                      decryptionRequestIdBonus := requestId,
                      trace := trace s2 @ [BonusCalculated requestId a]\<rparr>))"
    if enter: "withdrawBonus_enter s a = Inr (s1, bonus)"
  proof -
    note e = withdrawBonus_enter_Inr [OF enter]
    from so have "requestedHandles s (counterRequest s) = None"
      and "requestToEmployee s (counterRequest s) = 0"
      by (simp_all add: sound_def)
    with e have "\<not> hasWithdrawn (employees s a) \<and> hasWithdrawn (employees s1 a) \<and>
        counterRequest s1 = counterRequest s \<and>
        requestedHandles s1 (counterRequest s1) = None \<and>
        requestToEmployee s1 (counterRequest s1) = 0"
      by simp
    moreover have "withdrawBonus s a =
          (let (requestId, s2) = requestDecryption s1 bonus
           in Inr (s2\<lparr>requestToEmployee := (requestToEmployee s2)(requestId := a),
                      decryptionRequestIdBonus := requestId,
                      trace := trace s2 @ [BonusCalculated requestId a]\<rparr>))"
      by (simp add: withdrawBonus_def enter)
    ultimately show ?thesis by blast
  qed
  have 1: "(\<exists>s1 bonus. withdrawBonus_enter s a = Inr (s1, bonus)) \<and>
      \<not> hasWithdrawn (employees s a) \<and> hasWithdrawn (employees s' a) \<and>
      requestToEmployee s' (counterRequest s) = a \<and>
      requestedHandles s' (counterRequest s) \<noteq> None \<and>
      decryptedBonus (employees s' a) = decryptedBonus (employees s a)"
    if w: "withdrawBonus s a = Inr s'"
  proof -
    from w have "\<exists>s1 bonus. withdrawBonus_enter s a = Inr (s1, bonus)"
      by (cases "withdrawBonus_enter s a") (auto simp add: withdrawBonus_def)
    with withdrawBonus_Inr [OF w] show ?thesis by simp
  qed
  have 2: "hasWithdrawn (employees (run s cs) a) \<and>
      withdrawBonus s a = Inl AlreadyWithdrawn \<and>
      commitPerformance s a e p r =
        Inl (if r = None_Role then InvalidRole else AlreadyWithdrawn)"
    if w: "hasWithdrawn (employees s a)"
  proof -
    from so w have "hasCommitted (employees s a)" by (simp add: sound_def)
    with w k show ?thesis
      by (simp add: keeps_def withdrawBonus_def withdrawBonus_enter_def commitPerformance_def)
  qed
  have 3: "hasCommitted (employees (run s cs) a) \<and>
      commitPerformance s a e p r =
        Inl (if r = None_Role then InvalidRole
             else if hasWithdrawn (employees s a) then AlreadyWithdrawn
             else AlreadyCommittedPerformance)"
    if "hasCommitted (employees s a)"
    using that k init by (simp add: keeps_def commitPerformance_def)
  have 4: "\<not> hasCommitted (employees s a) \<and> hasCommitted (employees s' a) \<and>
      \<not> hasWithdrawn (employees s' a)"
    if "commitPerformance s a e p r = Inr s'"
    using commitPerformance_Inr [OF that] by simp
  have 5: "hasWithdrawn (employees s a) \<and>
      (\<exists>r' v' p' cs' sent'. c = CallbackPayBonus r' v' p' cs' sent' \<and>
         requestToEmployee s r' = a \<and> decryptedBonus (employees s' a) = v')"
    if "exec s c = Inr s' \<and> decryptedBonus (employees s' a) \<noteq> decryptedBonus (employees s a)"
    using that exec_decryptedBonus [of s c s' a] so by blast
  have 6: "decryptedBonus (employees t' a) = decryptedBonus (employees t a)"
    if "fundPool t x n e q = Inr t' \<or> callbackVerifyPool t i v q = Inr t' \<or>
      withdrawBonus t x = Inr t' \<or> withdrawRemaining t x = Inr t' \<or>
      callbackPayBonus_enter t i v q = Inr (t', y, w) \<or>
      callbackWithdrawRemaining_enter t i v q = Inr (t', n) \<or>
      callbackWithdrawRemaining_leave t n q = Inr t'"
    using that
    by (elim disjE)
      (auto dest!: fundPool_Inr callbackVerifyPool_Inr withdrawBonus_Inr withdrawRemaining_Inr
        callbackPayBonus_enter_Inr callbackWithdrawRemaining_enter_Inr
        callbackWithdrawRemaining_leave_Inr)
  have 7: "decryptedBonus (employees t' a) =
          (if a = x then 0 else decryptedBonus (employees t a))"
    if "commitPerformance t x e q r = Inr t'"
    using commitPerformance_Inr [OF that] by simp
  have 8: "decryptedBonus (employees t' a) =
          (if a = x then w else decryptedBonus (employees t a))"
    if "callbackPayBonus_leave t i x w q = Inr t'"
    using callbackPayBonus_leave_Inr [OF that] by simp
  from 0 1 2 3 4 5 6 7 8 show ?thesis
    by blast
qed

text \<open>
  The theorem in the scenario of the spec: the employee 2 commits, withdraws, and the
  bonus is settled.
\<close>

theorem participant_flags_witness:
  "withdrawBonus_enter (run (constructor 1 7)
       [FundPool 1 1000000 1000000 True, CommitPerformance 2 80 True Mid]) 2
     = Inr ((run (constructor 1 7)
              [FundPool 1 1000000 1000000 True, CommitPerformance 2 80 True Mid])
            \<lparr>employees := (employees (run (constructor 1 7)
                [FundPool 1 1000000 1000000 True, CommitPerformance 2 80 True Mid]))(2 :=
                  \<lparr>performance = Encrypted 80, role = Mid, hasWithdrawn = True,
                   hasCommitted = True, decryptedBonus = 0\<rparr>)\<rparr>,
            Encrypted 64000) \<and>
   requestedHandles
     ((run (constructor 1 7)
         [FundPool 1 1000000 1000000 True, CommitPerformance 2 80 True Mid])
      \<lparr>employees := (employees (run (constructor 1 7)
          [FundPool 1 1000000 1000000 True, CommitPerformance 2 80 True Mid]))(2 :=
            \<lparr>performance = Encrypted 80, role = Mid, hasWithdrawn = True,
             hasCommitted = True, decryptedBonus = 0\<rparr>)\<rparr>) 8 = None \<and>
   withdrawBonus (run (constructor 1 7)
       [FundPool 1 1000000 1000000 True, CommitPerformance 2 80 True Mid]) 2
     = Inr (run (constructor 1 7)
       [FundPool 1 1000000 1000000 True, CommitPerformance 2 80 True Mid, WithdrawBonus 2]) \<and>
   requestedHandles (run (constructor 1 7)
       [FundPool 1 1000000 1000000 True, CommitPerformance 2 80 True Mid, WithdrawBonus 2]) 8
     \<noteq> None \<and>
   hasWithdrawn (employees (run (constructor 1 7)
       [FundPool 1 1000000 1000000 True, CommitPerformance 2 80 True Mid, WithdrawBonus 2]) 2) \<and>
   hasWithdrawn (employees (run (run (constructor 1 7)
       [FundPool 1 1000000 1000000 True, CommitPerformance 2 80 True Mid, WithdrawBonus 2])
       [CallbackPayBonus 8 64000 True [] True, CommitPerformance 2 90 True Lead]) 2) \<and>
   withdrawBonus (run (constructor 1 7)
       [FundPool 1 1000000 1000000 True, CommitPerformance 2 80 True Mid, WithdrawBonus 2]) 2
     = Inl AlreadyWithdrawn \<and>
   commitPerformance (run (constructor 1 7)
       [FundPool 1 1000000 1000000 True, CommitPerformance 2 80 True Mid, WithdrawBonus 2])
       2 90 True Lead = Inl AlreadyWithdrawn \<and>
   hasCommitted (employees (run (constructor 1 7)
       [FundPool 1 1000000 1000000 True, CommitPerformance 2 80 True Mid]) 2) \<and>
   commitPerformance (run (constructor 1 7)
       [FundPool 1 1000000 1000000 True, CommitPerformance 2 80 True Mid])
       2 90 True Lead = Inl AlreadyCommittedPerformance \<and>
   commitPerformance (run (constructor 1 7) [FundPool 1 1000000 1000000 True]) 2 80 True Mid
     = Inr (run (constructor 1 7)
         [FundPool 1 1000000 1000000 True, CommitPerformance 2 80 True Mid]) \<and>
   \<not> hasCommitted (employees (run (constructor 1 7) [FundPool 1 1000000 1000000 True]) 2) \<and>
   exec (run (constructor 1 7)
       [FundPool 1 1000000 1000000 True, CommitPerformance 2 80 True Mid, WithdrawBonus 2])
     (CallbackPayBonus 8 64000 True [] True)
     = Inr (run (constructor 1 7)
       [FundPool 1 1000000 1000000 True, CommitPerformance 2 80 True Mid, WithdrawBonus 2,
        CallbackPayBonus 8 64000 True [] True]) \<and>
   requestToEmployee (run (constructor 1 7)
       [FundPool 1 1000000 1000000 True, CommitPerformance 2 80 True Mid, WithdrawBonus 2]) 8
     = 2 \<and>
   decryptedBonus (employees (run (constructor 1 7)
       [FundPool 1 1000000 1000000 True, CommitPerformance 2 80 True Mid, WithdrawBonus 2]) 2)
     = decryptedBonus (employees (run (constructor 1 7)
       [FundPool 1 1000000 1000000 True, CommitPerformance 2 80 True Mid]) 2) \<and>
   decryptedBonus (employees (run (constructor 1 7)
       [FundPool 1 1000000 1000000 True, CommitPerformance 2 80 True Mid]) 2) = 0 \<and>
   decryptedBonus (employees (run (constructor 1 7)
       [FundPool 1 1000000 1000000 True, CommitPerformance 2 80 True Mid, WithdrawBonus 2,
        CallbackPayBonus 8 64000 True [] True]) 2) = 64000"
proof -
  define f where "f = [FundPool 1 1000000 1000000 True]"
  define c where "c = [FundPool 1 1000000 1000000 True, CommitPerformance 2 80 True Mid]"
  define w where "w = [FundPool 1 1000000 1000000 True, CommitPerformance 2 80 True Mid,
    WithdrawBonus 2]"
  define sf where "sf = run (constructor 1 7) f"
  define sc where "sc = run (constructor 1 7) c"
  define sw where "sw = run (constructor 1 7) w"
  define sp where "sp = run (constructor 1 7)
       [FundPool 1 1000000 1000000 True, CommitPerformance 2 80 True Mid, WithdrawBonus 2,
        CallbackPayBonus 8 64000 True [] True]"
  define se where "se = sc\<lparr>employees := (employees sc)(2 :=
      \<lparr>performance = Encrypted 80, role = Mid, hasWithdrawn = True,
       hasCommitted = True, decryptedBonus = 0\<rparr>)\<rparr>"
  define st where "st = sendETH (sw\<lparr>status := 1, encryptedPool := Encrypted 936000,
      actualPool := 936000\<rparr>) 2 64000"
  have h0: "withdrawBonus_enter sc 2 = Inr (se, Encrypted 64000)"
    unfolding se_def sc_def c_def by (simp add: run_defs)
  have c8: "counterRequest sc = 8"
    unfolding sc_def c_def by (simp add: run_defs)
  have h1: "withdrawBonus sc 2 = Inr sw"
    unfolding sc_def sw_def c_def w_def by (simp add: run_defs)
  have h2: "hasWithdrawn (employees sw 2)"
    unfolding sw_def w_def by (simp add: run_defs)
  have h3: "hasCommitted (employees sc 2)" and nw: "\<not> hasWithdrawn (employees sc 2)"
    unfolding sc_def c_def by (simp_all add: run_defs)
  have h4: "commitPerformance sf 2 80 True Mid = Inr sc"
    unfolding sf_def sc_def f_def c_def by (simp add: run_defs)
  have e5: "exec sw (CallbackPayBonus 8 64000 True [] True) = Inr sp"
    unfolding sw_def sp_def w_def by (simp add: run_defs)
  have d5: "decryptedBonus (employees sp 2) \<noteq> decryptedBonus (employees sw 2)"
    unfolding sw_def sp_def w_def by (simp add: run_defs)
  have h8: "callbackPayBonus_leave st 8 2 64000 True = Inr sp"
    unfolding st_def sw_def sp_def w_def by (simp add: run_defs)
  note t0 = participant_flags [OF sc_def, where a = 2 and ?s1.0 = se and bonus = "Encrypted 64000",
      THEN conjunct1, rule_format, OF h0]
  note t1 = participant_flags [OF sc_def, where a = 2 and s' = sw,
      THEN conjunct2, THEN conjunct1, rule_format, OF h1]
  note t2 = participant_flags [OF sw_def, where a = 2 and e = 90 and p = True and r = Lead
      and cs = "[CallbackPayBonus 8 64000 True [] True, CommitPerformance 2 90 True Lead]",
      THEN conjunct2, THEN conjunct2, THEN conjunct1, rule_format, OF h2]
  note t3 = participant_flags [OF sc_def, where a = 2 and e = 90 and p = True and r = Lead
      and cs = "[]",
      THEN conjunct2, THEN conjunct2, THEN conjunct2, THEN conjunct1, rule_format, OF h3]
  note t4 = participant_flags [OF sf_def, where a = 2 and e = 80 and p = True and r = Mid
      and s' = sc,
      THEN conjunct2, THEN conjunct2, THEN conjunct2, THEN conjunct2, THEN conjunct1,
      rule_format, OF h4]
  note t5 = participant_flags [OF sw_def, where a = 2 and s' = sp
      and c = "CallbackPayBonus 8 64000 True [] True",
      THEN conjunct2, THEN conjunct2, THEN conjunct2, THEN conjunct2, THEN conjunct2,
      THEN conjunct1, rule_format, OF conjI [OF e5 d5]]
  note t6 = participant_flags [OF sc_def, where a = 2 and t = sc and x = 2 and t' = sw,
      THEN conjunct2, THEN conjunct2, THEN conjunct2, THEN conjunct2, THEN conjunct2,
      THEN conjunct2, THEN conjunct1, rule_format, OF disjI2 [OF disjI2 [OF disjI1 [OF h1]]]]
  note t7 = participant_flags [OF sc_def, where a = 2 and t = sf and x = 2 and t' = sc
      and e = 80 and q = True and r = Mid,
      THEN conjunct2, THEN conjunct2, THEN conjunct2, THEN conjunct2, THEN conjunct2,
      THEN conjunct2, THEN conjunct2, THEN conjunct1, rule_format, OF h4]
  note t8 = participant_flags [OF sc_def, where a = 2 and t = st and x = 2 and t' = sp
      and i = 8 and w = 64000 and q = True,
      THEN conjunct2, THEN conjunct2, THEN conjunct2, THEN conjunct2, THEN conjunct2,
      THEN conjunct2, THEN conjunct2, THEN conjunct2, rule_format, OF h8]
  from t0 c8 have a0: "requestedHandles se 8 = None" by auto
  from t1 c8 have a1: "requestedHandles sw 8 \<noteq> None" by simp
  from t2 have a2: "hasWithdrawn (employees (run sw
       [CallbackPayBonus 8 64000 True [] True, CommitPerformance 2 90 True Lead]) 2)"
    and b2: "withdrawBonus sw 2 = Inl AlreadyWithdrawn"
    and c2: "commitPerformance sw 2 90 True Lead = Inl AlreadyWithdrawn"
    by simp_all
  from t3 nw have a3: "commitPerformance sc 2 90 True Lead = Inl AlreadyCommittedPerformance"
    by simp
  from t4 have a4: "\<not> hasCommitted (employees sf 2)" by simp
  from t5 have a5: "requestToEmployee sw 8 = 2" by auto
  from t7 have a7: "decryptedBonus (employees sc 2) = 0" by simp
  from t8 have a8: "decryptedBonus (employees sp 2) = 64000" by simp
  from h0 a0 h1 a1 h2 a2 b2 c2 h3 a3 h4 a4 e5 a5 t6 a7 a8 show ?thesis
    unfolding se_def unfolding sf_def sc_def sw_def sp_def f_def c_def w_def by blast
qed

text \<open>
  C4 as stated fails in its last part: \<open>decryptedBonus\<close> is not written when
  \<open>hasWithdrawn\<close> becomes true (it is 0 before and after \<open>withdrawBonus\<close>), it is
  written by the later callback, when \<open>hasWithdrawn\<close> is true already.
\<close>

theorem decryptedBonus_written_at_settlement_counterexample:
  "\<not> hasWithdrawn (employees (run (constructor 1 7)
       [FundPool 1 1000000 1000000 True, CommitPerformance 2 80 True Mid]) 2) \<and>
   hasWithdrawn (employees (run (constructor 1 7)
       [FundPool 1 1000000 1000000 True, CommitPerformance 2 80 True Mid, WithdrawBonus 2]) 2) \<and>
   decryptedBonus (employees (run (constructor 1 7)
       [FundPool 1 1000000 1000000 True, CommitPerformance 2 80 True Mid]) 2) = 0 \<and>
   decryptedBonus (employees (run (constructor 1 7)
       [FundPool 1 1000000 1000000 True, CommitPerformance 2 80 True Mid, WithdrawBonus 2]) 2)
     = 0 \<and>
   hasWithdrawn (employees (run (constructor 1 7)
       [FundPool 1 1000000 1000000 True, CommitPerformance 2 80 True Mid, WithdrawBonus 2,
        CallbackPayBonus 8 64000 True [] True]) 2) \<and>
   decryptedBonus (employees (run (constructor 1 7)
       [FundPool 1 1000000 1000000 True, CommitPerformance 2 80 True Mid, WithdrawBonus 2,
        CallbackPayBonus 8 64000 True [] True]) 2) = 64000"
  by (simp add: run_defs)

text \<open>
  C5 (as amended): in \<open>callbackPayBonus\<close> the request is still registered when the
  ether is sent, and it is removed after the call returns. What excludes a second
  settlement during the transfer is the guard \<open>nonReentrant\<close>: \<open>status\<close> is 1 in the
  storage in which the ether is sent and stays so whatever the receiving account calls,
  so every \<open>callbackPayBonus\<close> and \<open>callbackWithdrawRemaining\<close> that arrives during the
  transfer fails with \<open>Reentrancy\<close>.
\<close>

theorem payBonus_reentrancy_guard:
  "callbackPayBonus_enter s r v p = Inr (s1, employee, bonus) \<Longrightarrow>
     requestToEmployee s1 r = employee \<and> employee \<noteq> 0 \<and> status s1 = 1 \<and>
     exec s (CallbackPayBonus r v p cs sent) =
       callbackPayBonus_leave (run (sendETH s1 employee (unat bonus)) cs) r employee bonus sent \<and>
     exec (run (sendETH s1 employee (unat bonus)) cs') (CallbackPayBonus r' v' p' cs'' sent')
       = Inl Reentrancy \<and>
     exec (run (sendETH s1 employee (unat bonus)) cs')
       (CallbackWithdrawRemaining r' v' p' cs'' sent') = Inl Reentrancy \<and>
     (callbackPayBonus_leave t r employee bonus sent = Inr s' \<longrightarrow>
        requestToEmployee s' r = 0 \<and> status s' = 0)"
proof -
  assume enter: "callbackPayBonus_enter s r v p = Inr (s1, employee, bonus)"
  note e = callbackPayBonus_enter_Inr [OF enter]
  let ?t = "sendETH s1 employee (unat bonus)"
  from e have open_at_call: "requestToEmployee s1 r = employee \<and> employee \<noteq> 0 \<and> status s1 = 1"
    by auto
  then have "status ?t \<noteq> 0" by (simp add: sendETH_def)
  from run_locked [OF this, of cs'] open_at_call have locked: "status (run ?t cs') \<noteq> 0"
    by (simp add: sendETH_def)
  have ex: "exec s (CallbackPayBonus r v p cs sent) =
       callbackPayBonus_leave (run ?t cs) r employee bonus sent"
    by (simp only: exec_CallbackPayBonus_run enter sum.case prod.case)
  have n1: "exec (run ?t cs') (CallbackPayBonus r' v' p' cs'' sent') = Inl Reentrancy"
    using locked by (simp add: callbackPayBonus_enter_locked)
  have n2: "exec (run ?t cs') (CallbackWithdrawRemaining r' v' p' cs'' sent') = Inl Reentrancy"
    using locked by (simp add: callbackWithdrawRemaining_enter_locked)
  have closed: "callbackPayBonus_leave t r employee bonus sent = Inr s' \<longrightarrow>
        requestToEmployee s' r = 0 \<and> status s' = 0"
    by (auto dest: callbackPayBonus_leave_Inr)
  from open_at_call ex n1 n2 closed show ?thesis by blast
qed

text \<open>
  The theorem for the bonus request of the scenario; the receiving account withdraws and
  commits before it tries the callback again.
\<close>

theorem payBonus_reentrancy_guard_witness:
  "callbackPayBonus_enter
     (run (constructor 1 7)
        [FundPool 1 1000000 1000000 True, CommitPerformance 2 80 True Mid, WithdrawBonus 2])
     8 64000 True
   = Inr ((run (constructor 1 7)
            [FundPool 1 1000000 1000000 True, CommitPerformance 2 80 True Mid, WithdrawBonus 2])
          \<lparr>status := 1, encryptedPool := Encrypted 936000, actualPool := 936000\<rparr>,
          2, 64000) \<and>
   exec (run (sendETH
               ((run (constructor 1 7)
                   [FundPool 1 1000000 1000000 True, CommitPerformance 2 80 True Mid,
                    WithdrawBonus 2])
                \<lparr>status := 1, encryptedPool := Encrypted 936000, actualPool := 936000\<rparr>)
               2 (unat (64000 :: uint64)))
          [WithdrawBonus 2, CommitPerformance 3 90 True Lead])
     (CallbackPayBonus 8 64000 True [] True) = Inl Reentrancy"
proof -
  define s where "s = run (constructor 1 7)
        [FundPool 1 1000000 1000000 True, CommitPerformance 2 80 True Mid, WithdrawBonus 2]"
  define s1 where "s1 = s\<lparr>status := 1, encryptedPool := Encrypted 936000, actualPool := 936000\<rparr>"
  have enter: "callbackPayBonus_enter s 8 64000 True = Inr (s1, 2, 64000)"
    unfolding s1_def s_def by (simp add: run_defs)
  note th = payBonus_reentrancy_guard [OF enter,
      of "[]" True "[WithdrawBonus 2, CommitPerformance 3 90 True Lead]" 8 64000 True "[]" True]
  from th have "exec (run (sendETH s1 2 (unat (64000 :: uint64)))
          [WithdrawBonus 2, CommitPerformance 3 90 True Lead])
     (CallbackPayBonus 8 64000 True [] True) = Inl Reentrancy"
    by blast
  with enter show ?thesis
    unfolding s1_def s_def by blast
qed

text \<open>
  C5 as stated fails: in the storage in which the ether of request 8 is sent, request 8
  is still mapped to the employee 2.
\<close>

theorem payBonus_request_open_at_transfer_counterexample:
  "callbackPayBonus_enter
     (run (constructor 1 7)
        [FundPool 1 1000000 1000000 True, CommitPerformance 2 80 True Mid, WithdrawBonus 2])
     8 64000 True
   = Inr ((run (constructor 1 7)
            [FundPool 1 1000000 1000000 True, CommitPerformance 2 80 True Mid, WithdrawBonus 2])
          \<lparr>status := 1, encryptedPool := Encrypted 936000, actualPool := 936000\<rparr>,
          2, 64000) \<and>
   requestToEmployee
     ((run (constructor 1 7)
         [FundPool 1 1000000 1000000 True, CommitPerformance 2 80 True Mid, WithdrawBonus 2])
      \<lparr>status := 1, encryptedPool := Encrypted 936000, actualPool := 936000\<rparr>) 8 = 2"
  by (simp add: run_defs)

text \<open>
  C6 (as amended): the contract has two places for pending requests. Bonus requests are
  kept per identifier in \<open>requestToEmployee\<close>; funding verification and the withdrawal
  of the remainder share the one slot \<open>decryptionRequestIdPool\<close>. Opening or settling a
  bonus request leaves the slot of the pool as it is, and funding, its verification, the
  withdrawal of the remainder and its settlement leave \<open>requestToEmployee\<close> as it is;
  \<open>fundPool\<close> and \<open>withdrawRemaining\<close> both write the identifier of their request into
  the slot of the pool, and both callbacks accept only the identifier in that slot and
  clear it. (The callbacks that send ether are taken with a receiving account that calls
  nothing.)
\<close>

theorem bonus_requests_apart_from_pool_slot:
  "(withdrawBonus s a = Inr s' \<longrightarrow>
      decryptionRequestIdPool s' = decryptionRequestIdPool s \<and>
      requestToEmployee s' = (requestToEmployee s)(counterRequest s := a)) \<and>
   (exec s (CallbackPayBonus r v p [] sent) = Inr s' \<longrightarrow>
      decryptionRequestIdPool s' = decryptionRequestIdPool s \<and>
      requestToEmployee s' = (requestToEmployee s)(r := 0)) \<and>
   (fundPool s a n e q = Inr s' \<longrightarrow>
      requestToEmployee s' = requestToEmployee s \<and>
      decryptionRequestIdPool s' = counterRequest s) \<and>
   (callbackVerifyPool s r v p = Inr s' \<longrightarrow>
      requestToEmployee s' = requestToEmployee s \<and>
      r = decryptionRequestIdPool s \<and> decryptionRequestIdPool s' = 0) \<and>
   (withdrawRemaining s a = Inr s' \<longrightarrow>
      requestToEmployee s' = requestToEmployee s \<and>
      decryptionRequestIdPool s' = counterRequest s) \<and>
   (exec s (CallbackWithdrawRemaining r v p [] sent) = Inr s' \<longrightarrow>
      requestToEmployee s' = requestToEmployee s \<and>
      r = decryptionRequestIdPool s \<and> decryptionRequestIdPool s' = 0)"
proof (intro conjI impI)
  assume "withdrawBonus s a = Inr s'"
  from withdrawBonus_Inr [OF this]
  show "decryptionRequestIdPool s' = decryptionRequestIdPool s"
    and "requestToEmployee s' = (requestToEmployee s)(counterRequest s := a)"
    by simp_all
next
  assume "exec s (CallbackPayBonus r v p [] sent) = Inr s'"
  then obtain s1 where
    enter: "callbackPayBonus_enter s r v p = Inr (s1, requestToEmployee s r, v)" and
    leave: "callbackPayBonus_leave (run (sendETH s1 (requestToEmployee s r) (unat v)) []) r
        (requestToEmployee s r) v sent = Inr s'"
    by (rule exec_CallbackPayBonus_Inr)
  from callbackPayBonus_enter_Inr [OF enter] callbackPayBonus_leave_Inr [OF leave]
  show "decryptionRequestIdPool s' = decryptionRequestIdPool s"
    and "requestToEmployee s' = (requestToEmployee s)(r := 0)"
    by (simp_all add: sendETH_def)
next
  assume "fundPool s a n e q = Inr s'"
  from fundPool_Inr [OF this]
  show "requestToEmployee s' = requestToEmployee s"
    and "decryptionRequestIdPool s' = counterRequest s"
    by simp_all
next
  assume "callbackVerifyPool s r v p = Inr s'"
  from callbackVerifyPool_Inr [OF this]
  show "requestToEmployee s' = requestToEmployee s"
    and "r = decryptionRequestIdPool s" and "decryptionRequestIdPool s' = 0"
    by simp_all
next
  assume "withdrawRemaining s a = Inr s'"
  from withdrawRemaining_Inr [OF this]
  show "requestToEmployee s' = requestToEmployee s"
    and "decryptionRequestIdPool s' = counterRequest s"
    by simp_all
next
  assume "exec s (CallbackWithdrawRemaining r v p [] sent) = Inr s'"
  then obtain s1 where
    enter: "callbackWithdrawRemaining_enter s r v p = Inr (s1, actualPool s)" and
    leave: "callbackWithdrawRemaining_leave (run (sendETH s1 (manager s) (actualPool s)) [])
        (actualPool s) sent = Inr s'"
    by (rule exec_CallbackWithdrawRemaining_Inr)
  from callbackWithdrawRemaining_enter_Inr [OF enter] callbackWithdrawRemaining_leave_Inr [OF leave]
  show "requestToEmployee s' = requestToEmployee s"
    and "r = decryptionRequestIdPool s" and "decryptionRequestIdPool s' = 0"
    by (simp_all add: sendETH_def)
qed

text \<open>
  The theorem along the scenario of the spec: the funding request 7 and the bonus request
  8 do not disturb each other.
\<close>

theorem bonus_requests_apart_from_pool_slot_witness:
  "decryptionRequestIdPool
     (run (constructor 1 7)
        [FundPool 1 1000000 1000000 True, CommitPerformance 2 80 True Mid]) = 7 \<and>
   decryptionRequestIdPool
     (run (constructor 1 7)
        [FundPool 1 1000000 1000000 True, CommitPerformance 2 80 True Mid, WithdrawBonus 2]) = 7 \<and>
   decryptionRequestIdPool
     (run (constructor 1 7)
        [FundPool 1 1000000 1000000 True, CommitPerformance 2 80 True Mid, WithdrawBonus 2,
         CallbackPayBonus 8 64000 True [] True]) = 7 \<and>
   requestToEmployee
     (run (constructor 1 7)
        [FundPool 1 1000000 1000000 True, CommitPerformance 2 80 True Mid, WithdrawBonus 2]) 8
     = 2 \<and>
   requestToEmployee
     (run (constructor 1 7)
        [FundPool 1 1000000 1000000 True, CommitPerformance 2 80 True Mid, WithdrawBonus 2,
         FundPool 1 50 50 True]) 8 = 2 \<and>
   requestToEmployee
     (run (constructor 1 7)
        [FundPool 1 1000000 1000000 True, CommitPerformance 2 80 True Mid, WithdrawBonus 2,
         CallbackVerifyPool 7 1000000 True]) 8 = 2 \<and>
   requestToEmployee
     (run (constructor 1 7)
        [FundPool 1 1000000 1000000 True, CommitPerformance 2 80 True Mid, WithdrawBonus 2,
         WithdrawRemaining 1]) 8 = 2 \<and>
   requestToEmployee
     (run (constructor 1 7)
        [FundPool 1 1000000 1000000 True, CommitPerformance 2 80 True Mid, WithdrawBonus 2,
         WithdrawRemaining 1, CallbackWithdrawRemaining 9 1000000 True [] True]) 8 = 2"
proof -
  define c where "c = run (constructor 1 7)
        [FundPool 1 1000000 1000000 True, CommitPerformance 2 80 True Mid]"
  define w where "w = run (constructor 1 7)
        [FundPool 1 1000000 1000000 True, CommitPerformance 2 80 True Mid, WithdrawBonus 2]"
  define pb where "pb = run (constructor 1 7)
        [FundPool 1 1000000 1000000 True, CommitPerformance 2 80 True Mid, WithdrawBonus 2,
         CallbackPayBonus 8 64000 True [] True]"
  define f where "f = run (constructor 1 7)
        [FundPool 1 1000000 1000000 True, CommitPerformance 2 80 True Mid, WithdrawBonus 2,
         FundPool 1 50 50 True]"
  define vp where "vp = run (constructor 1 7)
        [FundPool 1 1000000 1000000 True, CommitPerformance 2 80 True Mid, WithdrawBonus 2,
         CallbackVerifyPool 7 1000000 True]"
  define wr where "wr = run (constructor 1 7)
        [FundPool 1 1000000 1000000 True, CommitPerformance 2 80 True Mid, WithdrawBonus 2,
         WithdrawRemaining 1]"
  define cr where "cr = run (constructor 1 7)
        [FundPool 1 1000000 1000000 True, CommitPerformance 2 80 True Mid, WithdrawBonus 2,
         WithdrawRemaining 1, CallbackWithdrawRemaining 9 1000000 True [] True]"
  have c7: "decryptionRequestIdPool c = 7" and cc: "counterRequest c = 8"
    unfolding c_def by (simp_all add: run_defs)
  have h1: "withdrawBonus c 2 = Inr w"
    unfolding c_def w_def by (simp add: run_defs)
  have h2: "exec w (CallbackPayBonus 8 64000 True [] True) = Inr pb"
    unfolding w_def pb_def by (simp add: run_defs)
  have h3: "fundPool w 1 50 50 True = Inr f"
    unfolding w_def f_def by (simp add: run_defs)
  have h4: "callbackVerifyPool w 7 1000000 True = Inr vp"
    unfolding w_def vp_def by (simp add: run_defs)
  have h5: "withdrawRemaining w 1 = Inr wr"
    unfolding w_def wr_def by (simp add: run_defs)
  have h6: "exec wr (CallbackWithdrawRemaining 9 1000000 True [] True) = Inr cr"
    unfolding wr_def cr_def by (simp add: run_defs)
  note t1 = bonus_requests_apart_from_pool_slot [of c 2 w, THEN conjunct1, rule_format, OF h1]
  note t2 = bonus_requests_apart_from_pool_slot [of w _ pb 8 64000 True True,
      THEN conjunct2, THEN conjunct1, rule_format, OF h2]
  note t3 = bonus_requests_apart_from_pool_slot [of w 1 f _ _ _ _ 50 50 True,
      THEN conjunct2, THEN conjunct2, THEN conjunct1, rule_format, OF h3]
  note t4 = bonus_requests_apart_from_pool_slot [of w _ vp 7 1000000 True,
      THEN conjunct2, THEN conjunct2, THEN conjunct2, THEN conjunct1, rule_format, OF h4]
  note t5 = bonus_requests_apart_from_pool_slot [of w 1 wr,
      THEN conjunct2, THEN conjunct2, THEN conjunct2, THEN conjunct2, THEN conjunct1,
      rule_format, OF h5]
  note t6 = bonus_requests_apart_from_pool_slot [of wr _ cr 9 1000000 True True,
      THEN conjunct2, THEN conjunct2, THEN conjunct2, THEN conjunct2, THEN conjunct2,
      rule_format, OF h6]
  from t1 c7 cc have w7: "decryptionRequestIdPool w = 7" and w8: "requestToEmployee w 8 = 2"
    by simp_all
  from t2 w7 have p7: "decryptionRequestIdPool pb = 7" by simp
  from t3 w8 have f8: "requestToEmployee f 8 = 2" by simp
  from t4 w8 have v8: "requestToEmployee vp 8 = 2" by simp
  from t5 w8 have r8: "requestToEmployee wr 8 = 2" by simp
  from t6 r8 have c8: "requestToEmployee cr 8 = 2" by simp
  from c7 w7 p7 w8 f8 v8 r8 c8 show ?thesis
    unfolding c_def w_def pb_def f_def vp_def wr_def cr_def by blast
qed

text \<open>
  C6 as stated fails: after a funding with request 7, \<open>withdrawRemaining\<close> overwrites
  the slot with its request 8, and the verification of the funding, which would have been
  accepted, fails with \<open>InvalidRequestID\<close>.
\<close>

theorem shared_pool_slot_counterexample:
  "decryptionRequestIdPool (run (constructor 1 7) [FundPool 1 100 100 True]) = 7 \<and>
   exec (run (constructor 1 7) [FundPool 1 100 100 True]) (CallbackVerifyPool 7 100 True)
     = Inr ((run (constructor 1 7) [FundPool 1 100 100 True])\<lparr>decryptionRequestIdPool := 0\<rparr>) \<and>
   decryptionRequestIdPool
     (run (constructor 1 7) [FundPool 1 100 100 True, WithdrawRemaining 1]) = 8 \<and>
   exec (run (constructor 1 7) [FundPool 1 100 100 True, WithdrawRemaining 1])
     (CallbackVerifyPool 7 100 True) = Inl InvalidRequestID"
  by (simp add: run_defs)

text \<open>
  C7: the third \<open>require\<close> of \<open>commitPerformance\<close>, with the message \<open>Pool not funded\<close>,
  tests whether the handle of the pool is assigned, and the constructor assigns it. So
  the check passes in the fresh storage and in every storage reached from it: a
  commitment on a pool that was never funded succeeds, and \<open>commitPerformance\<close> never
  fails with \<open>PoolNotFunded\<close>. (A commitment with the role \<open>None\<close> fails with
  \<open>InvalidRole\<close> in every storage and for every score.)
\<close>

theorem commitPerformance_before_funding:
  "actualPool (constructor m c0) = 0 \<and> trace (constructor m c0) = [] \<and>
   commitPerformance (constructor m c0) a score True Mid
     = Inr ((constructor m c0)
          \<lparr>employees := (employees (constructor m c0))(a :=
             \<lparr>performance = Encrypted score, role = Mid, hasWithdrawn = False,
              hasCommitted = True, decryptedBonus = 0\<rparr>),
           employeeList := [a],
           trace := [PerformanceCommitted a Mid]\<rparr>) \<and>
   commitPerformance (run (constructor m c0) cs) a score p r \<noteq> Inl PoolNotFunded \<and>
   commitPerformance s a score p None_Role = Inl InvalidRole"
proof -
  have "sound (run (constructor m c0) cs)"
    by (simp add: reachable_sound)
  then have "isInitialized (encryptedPool (run (constructor m c0) cs))"
    by (simp add: sound_def isInitialized_def)
  then have "commitPerformance (run (constructor m c0) cs) a score p r \<noteq> Inl PoolNotFunded"
    by (simp add: commitPerformance_def fromExternal_def)
  moreover have "commitPerformance s a score p None_Role = Inl InvalidRole"
    by (simp add: commitPerformance_def)
  ultimately show ?thesis
    by (simp add: run_defs)
qed

text \<open>
  C8: \<open>withdrawRemaining\<close> on a pool whose cleartext balance is 0 fails (for the
  manager with \<open>NoRemainingFunds\<close>) and the storage, the registered requests included, is
  what it was. A callback \<open>callbackWithdrawRemaining\<close> that passes the guard, the check of
  the signatures and the check of the identifier fails with \<open>PoolMismatch\<close> when the
  decrypted value is above the cleartext pool, fails with \<open>NothingToWithdraw\<close> when it
  is 0, and otherwise sets both balances of the pool to zero before it sends the whole
  cleartext pool to the manager; if the transfer fails, the call fails.
\<close>

theorem withdrawRemaining_settlement:
  "(actualPool s = 0 \<longrightarrow>
      withdrawRemaining s a = Inl (if a \<noteq> manager s then OnlyManager else NoRemainingFunds) \<and>
      settle s (exec s (WithdrawRemaining a)) = s) \<and>
   (status s = 0 \<and> checkSignatures s r v p = Inr () \<and> r = decryptionRequestIdPool s \<longrightarrow>
      (actualPool s < unat v \<longrightarrow>
         exec s (CallbackWithdrawRemaining r v p cs sent) = Inl PoolMismatch) \<and>
      (unat v \<le> actualPool s \<and> v = 0 \<longrightarrow>
         exec s (CallbackWithdrawRemaining r v p cs sent) = Inl NothingToWithdraw) \<and>
      (unat v \<le> actualPool s \<and> 0 < v \<longrightarrow>
         callbackWithdrawRemaining_enter s r v p =
           Inr (s\<lparr>status := 1, actualPool := 0, encryptedPool := asEuint64 0,
                  decryptionRequestIdPool := 0\<rparr>, actualPool s) \<and>
         exec s (CallbackWithdrawRemaining r v p [] True) =
           Inr (s\<lparr>actualPool := 0, encryptedPool := asEuint64 0, decryptionRequestIdPool := 0,
                  trace := trace s @ [Transfer (manager s) (actualPool s),
                     RemainingWithdrawn (manager s) (word_of_nat (actualPool s))]\<rparr>) \<and>
         exec s (CallbackWithdrawRemaining r v p cs False) = Inl FailedToSendETH))"
proof (intro conjI impI)
  assume "actualPool s = 0"
  then show "withdrawRemaining s a = Inl (if a \<noteq> manager s then OnlyManager else NoRemainingFunds)"
    by (simp add: withdrawRemaining_def)
  then show "settle s (exec s (WithdrawRemaining a)) = s"
    by (simp add: settle_def)
next
  assume "status s = 0 \<and> checkSignatures s r v p = Inr () \<and> r = decryptionRequestIdPool s"
  then have acc: "status s = 0" "r = decryptionRequestIdPool s"
    and sig0: "checkSignatures s r v p = Inr ()"
    by blast+
  have "checkSignatures (s\<lparr>status := 1\<rparr>) r v p = checkSignatures s r v p"
    by (simp add: checkSignatures_def)
  with sig0 have sig: "checkSignatures (s\<lparr>status := 1\<rparr>) r v p = Inr ()"
    by simp
  {
    assume "actualPool s < unat v"
    with acc sig show "exec s (CallbackWithdrawRemaining r v p cs sent) = Inl PoolMismatch"
      by (simp add: callbackWithdrawRemaining_enter_def Let_def)
  }
  {
    assume "unat v \<le> actualPool s \<and> v = 0"
    then have "v = 0" by simp
    with acc sig show "exec s (CallbackWithdrawRemaining r v p cs sent) = Inl NothingToWithdraw"
      by (simp add: callbackWithdrawRemaining_enter_def Let_def)
  }
  {
    assume "unat v \<le> actualPool s \<and> 0 < v"
    then have pos: "unat v \<le> actualPool s" "0 < v" by simp_all
    with acc sig show enter: "callbackWithdrawRemaining_enter s r v p =
           Inr (s\<lparr>status := 1, actualPool := 0, encryptedPool := asEuint64 0,
                  decryptionRequestIdPool := 0\<rparr>, actualPool s)"
      by (simp add: callbackWithdrawRemaining_enter_def Let_def)
    show "exec s (CallbackWithdrawRemaining r v p [] True) =
           Inr (s\<lparr>actualPool := 0, encryptedPool := asEuint64 0, decryptionRequestIdPool := 0,
                  trace := trace s @ [Transfer (manager s) (actualPool s),
                     RemainingWithdrawn (manager s) (word_of_nat (actualPool s))]\<rparr>)"
      unfolding exec_CallbackWithdrawRemaining_run enter
      using acc(1) by (cases s) (simp add: callbackWithdrawRemaining_leave_def sendETH_def)
    show "exec s (CallbackWithdrawRemaining r v p cs False) = Inl FailedToSendETH"
      by (simp only: exec_CallbackWithdrawRemaining_run enter sum.case prod.case
          callbackWithdrawRemaining_leave_def simp_thms if_True)
  }
qed

text \<open>
  The theorem on the fresh storage, and after fundings of 100 that encrypt 150, 0 and
  100.
\<close>

theorem withdrawRemaining_settlement_witness:
  "actualPool (constructor 1 7) = 0 \<and>
   withdrawRemaining (constructor 1 7) 1 = Inl NoRemainingFunds \<and>
   settle (constructor 1 7) (exec (constructor 1 7) (WithdrawRemaining 1)) = constructor 1 7 \<and>
   exec (run (constructor 1 7) [FundPool 1 100 150 True, WithdrawRemaining 1])
     (CallbackWithdrawRemaining 8 150 True [] True) = Inl PoolMismatch \<and>
   exec (run (constructor 1 7) [FundPool 1 100 0 True, WithdrawRemaining 1])
     (CallbackWithdrawRemaining 8 0 True [] True) = Inl NothingToWithdraw \<and>
   exec (run (constructor 1 7) [FundPool 1 100 100 True, WithdrawRemaining 1])
     (CallbackWithdrawRemaining 8 100 True [] True)
   = Inr ((run (constructor 1 7) [FundPool 1 100 100 True, WithdrawRemaining 1])
           \<lparr>actualPool := 0, encryptedPool := asEuint64 0, decryptionRequestIdPool := 0,
             trace := [PoolFunded 1 100 7, Transfer 1 100, RemainingWithdrawn 1 100]\<rparr>)"
proof -
  define s1 where "s1 = run (constructor 1 7) [FundPool 1 100 150 True, WithdrawRemaining 1]"
  define s2 where "s2 = run (constructor 1 7) [FundPool 1 100 0 True, WithdrawRemaining 1]"
  define s3 where "s3 = run (constructor 1 7) [FundPool 1 100 100 True, WithdrawRemaining 1]"
  have a0: "actualPool (constructor 1 7) = 0"
    by (simp add: constructor_def)
  note t0 = withdrawRemaining_settlement [of "constructor 1 7" 1, THEN conjunct1, rule_format, OF a0]
  have m: "manager (constructor 1 7) = 1" by (simp add: constructor_def)
  from t0 have w0: "withdrawRemaining (constructor 1 7) 1 = Inl NoRemainingFunds"
    by (simp only: m simp_thms if_False)
  have acc1: "status s1 = 0 \<and> checkSignatures s1 8 150 True = Inr () \<and>
      8 = decryptionRequestIdPool s1" and lt1: "actualPool s1 < unat (150 :: uint64)"
    unfolding s1_def by (simp_all add: run_defs)
  have acc2: "status s2 = 0 \<and> checkSignatures s2 8 0 True = Inr () \<and>
      8 = decryptionRequestIdPool s2" and z2: "unat (0 :: uint64) \<le> actualPool s2 \<and> (0 :: uint64) = 0"
    unfolding s2_def by (simp_all add: run_defs)
  have acc3: "status s3 = 0 \<and> checkSignatures s3 8 100 True = Inr () \<and>
      8 = decryptionRequestIdPool s3" and p3: "unat (100 :: uint64) \<le> actualPool s3 \<and> (0 :: uint64) < 100"
    unfolding s3_def by (simp_all add: run_defs)
  have f3: "manager s3 = 1" "actualPool s3 = 100" "trace s3 = [PoolFunded 1 100 7]"
    unfolding s3_def by (simp_all add: run_defs)
  note t1 = withdrawRemaining_settlement [of s1 1 8 150 True "[]" True,
      THEN conjunct2, rule_format, OF acc1, THEN conjunct1, rule_format, OF lt1]
  note t2 = withdrawRemaining_settlement [of s2 1 8 0 True "[]" True,
      THEN conjunct2, rule_format, OF acc2, THEN conjunct2, THEN conjunct1, rule_format, OF z2]
  note t3 = withdrawRemaining_settlement [of s3 1 8 100 True "[]" True,
      THEN conjunct2, rule_format, OF acc3, THEN conjunct2, THEN conjunct2, rule_format, OF p3,
      THEN conjunct2, THEN conjunct1]
  have t3': "exec s3 (CallbackWithdrawRemaining 8 100 True [] True)
   = Inr (s3\<lparr>actualPool := 0, encryptedPool := asEuint64 0, decryptionRequestIdPool := 0,
             trace := [PoolFunded 1 100 7, Transfer 1 100, RemainingWithdrawn 1 100]\<rparr>)"
    using t3 by (simp add: f3)
  from a0 w0 t0 t1 t2 t3' show ?thesis
    unfolding s1_def s2_def s3_def by blast
qed

text \<open>
  C9: where no product of the computation overflows, the bonus is monotonic in the score
  and in the percentage (\<open>encryptedBonus_mono\<close>, \<open>rolePercentage_rank\<close>). The unguarded
  overflow of C2 breaks it. With a pool of 461168601842738791 wei, the employee with the
  score 1 as Lead is registered for 922337203685477 and the employee with the score 2 as
  Lead for 0; the settlement of the latter fails with \<open>BonusZero\<close>, and \<open>hasWithdrawn\<close> is
  already set. With a pool of 19215358410114117 wei and the score 80, Mid is registered for
  1229782938247303 and Senior for 0.
\<close>

theorem bonus_not_monotone_at_overflow:
  "requestedHandles (run (constructor 1 7)
       [FundPool 1 461168601842738791 461168601842738791 True,
        CommitPerformance 2 1 True Lead, CommitPerformance 3 2 True Lead,
        WithdrawBonus 2, WithdrawBonus 3]) 8
     = Some (Encrypted 922337203685477) \<and>
   requestedHandles (run (constructor 1 7)
       [FundPool 1 461168601842738791 461168601842738791 True,
        CommitPerformance 2 1 True Lead, CommitPerformance 3 2 True Lead,
        WithdrawBonus 2, WithdrawBonus 3]) 9
     = Some (Encrypted 0) \<and>
   exec (run (constructor 1 7)
       [FundPool 1 461168601842738791 461168601842738791 True,
        CommitPerformance 2 1 True Lead, CommitPerformance 3 2 True Lead,
        WithdrawBonus 2, WithdrawBonus 3])
     (CallbackPayBonus 9 0 True [] True) = Inl BonusZero \<and>
   hasWithdrawn (employees (run (constructor 1 7)
       [FundPool 1 461168601842738791 461168601842738791 True,
        CommitPerformance 2 1 True Lead, CommitPerformance 3 2 True Lead,
        WithdrawBonus 2, WithdrawBonus 3]) 3) \<and>
   requestedHandles (run (constructor 1 7)
       [FundPool 1 19215358410114117 19215358410114117 True,
        CommitPerformance 2 80 True Mid, CommitPerformance 3 80 True Senior,
        WithdrawBonus 2, WithdrawBonus 3]) 8
     = Some (Encrypted 1229782938247303) \<and>
   requestedHandles (run (constructor 1 7)
       [FundPool 1 19215358410114117 19215358410114117 True,
        CommitPerformance 2 80 True Mid, CommitPerformance 3 80 True Senior,
        WithdrawBonus 2, WithdrawBonus 3]) 9
     = Some (Encrypted 0) \<and>
   rank Mid < rank Senior"
  by (simp add: run_defs rank_def)

text \<open>
  C10: only the manager can fund the pool. For every caller other than the manager,
  \<open>fundPool\<close> fails with the authorization error \<open>OnlyManager\<close>, whatever the value and
  the ciphertext sent, and the storage (balances, employees, request slots) is what it
  was.
\<close>

theorem fundPool_only_manager:
  "msg_sender \<noteq> manager s \<Longrightarrow>
     fundPool s msg_sender msg_value encryptedAmount inputProof = Inl OnlyManager \<and>
     exec s (FundPool msg_sender msg_value encryptedAmount inputProof) = Inl OnlyManager \<and>
     settle s (exec s (FundPool msg_sender msg_value encryptedAmount inputProof)) = s"
  by (simp add: fundPool_def settle_def)

theorem fundPool_only_manager_witness:
  "(2 :: address) \<noteq> manager (constructor 1 0) \<and>
   fundPool (constructor 1 0) 2 1000000 1000000 True = Inl OnlyManager \<and>
   settle (constructor 1 0) (exec (constructor 1 0) (FundPool 2 1000000 1000000 True))
     = constructor 1 0"
proof -
  have h: "(2 :: address) \<noteq> manager (constructor 1 0)"
    by (simp add: constructor_def)
  show ?thesis
    using h fundPool_only_manager [OF h, of 1000000 1000000 True]
    by (simp add: settle_simps)
qed

end
